theory Spec2Isabelle
  imports Complex_Main
begin

section \<open>JavaScript string primitives used by the sources\<close>

text \<open>
  A JavaScript string is a sequence of code units. The model uses \<open>string\<close>, so it
  covers the strings whose code units are below 256; on these the white space of
  \<open>String.prototype.trim\<close> and of the regular expression class \<open>\s\<close> is TAB, LF, VT,
  FF, CR, SPACE and NBSP.
\<close>

definition is_space :: "char \<Rightarrow> bool" where
  "is_space c =
     (c = CHR 0x09 \<or> c = CHR 0x0A \<or> c = CHR 0x0B \<or> c = CHR 0x0C \<or> c = CHR 0x0D \<or>
      c = CHR 0x20 \<or> c = CHR 0xA0)"

definition trimStart :: "string \<Rightarrow> string" where
  "trimStart s = dropWhile is_space s"

definition trimEnd :: "string \<Rightarrow> string" where
  "trimEnd s = rev (dropWhile is_space (rev s))"

definition trim :: "string \<Rightarrow> string" where
  "trim s = trimEnd (trimStart s)"

definition startsWith :: "string \<Rightarrow> string \<Rightarrow> bool" where
  "startsWith s p = (take (length p) s = p)"

text \<open>\<open>s.split(d)\<close> for a one-character separator: the result is never empty.\<close>

primrec split_on :: "char \<Rightarrow> string \<Rightarrow> string list" where
  "split_on d [] = [[]]"
| "split_on d (c # cs) =
     (if c = d then [] # split_on d cs
      else (case split_on d cs of [] \<Rightarrow> [[c]] | w # ws \<Rightarrow> (c # w) # ws))"

text \<open>
  \<open>s.split(/\s+/)\<close>: the pieces between maximal runs of white space. A string that
  starts (ends) with white space gets an empty first (last) piece, and the empty
  string splits into one empty piece.
\<close>

fun split_ws_tok :: "string \<Rightarrow> string \<Rightarrow> string list"
  and split_ws_sep :: "string \<Rightarrow> string list" where
  "split_ws_tok cur [] = [cur]"
| "split_ws_tok cur (c # cs) =
     (if is_space c then cur # split_ws_sep cs else split_ws_tok (cur @ [c]) cs)"
| "split_ws_sep [] = [[]]"
| "split_ws_sep (c # cs) =
     (if is_space c then split_ws_sep cs else split_ws_tok [c] cs)"

definition split_ws :: "string \<Rightarrow> string list" where
  "split_ws s = split_ws_tok [] s"

subsection \<open>Numbers and \<open>parseInt\<close>\<close>

text \<open>
  A JavaScript Number that holds an integer, NaN or an infinity. \<open>+0\<close> and \<open>-0\<close> are
  both \<open>Num 0\<close>.
\<close>

datatype jsnum = NaN | Num int | PosInfinity | NegInfinity

definition digit_val :: "char \<Rightarrow> nat option" where
  "digit_val c =
     (let n = (of_char c :: nat) in
      if 48 \<le> n \<and> n \<le> 57 then Some (n - 48)
      else if 97 \<le> n \<and> n \<le> 122 then Some (n - 87)
      else if 65 \<le> n \<and> n \<le> 90 then Some (n - 55)
      else None)"

definition is_radix_digit :: "nat \<Rightarrow> char \<Rightarrow> bool" where
  "is_radix_digit R c = (case digit_val c of None \<Rightarrow> False | Some v \<Rightarrow> v < R)"

definition digits_value :: "nat \<Rightarrow> string \<Rightarrow> int" where
  "digits_value R Z =
     foldl (\<lambda>acc c. acc * int R + (case digit_val c of None \<Rightarrow> 0 | Some v \<Rightarrow> int v)) 0 Z"

function bit_length :: "int \<Rightarrow> nat" where
  "bit_length n = (if n \<le> 0 then 0 else Suc (bit_length (n div 2)))"
  by pat_completeness auto
termination
  by (relation "measure nat") auto

declare bit_length.simps [simp del]

text \<open>
  The Number value of a non-negative mathematical integer: the nearest double, ties
  to the even significand; \<open>None\<close> stands for the overflow to Infinity.
\<close>

definition to_double :: "int \<Rightarrow> int option" where
  "to_double n =
     (if n < 2 ^ 53 then Some n
      else
        let e = bit_length n - 53;
            q = n div 2 ^ e;
            r = n mod 2 ^ e;
            h = 2 ^ (e - 1);
            q' = (if h < r \<or> (r = h \<and> odd q) then q + 1 else q);
            v = q' * 2 ^ e
        in if 2 ^ 1024 \<le> v then None else Some v)"

text \<open>
  \<open>parseInt(str, radix)\<close> of ECMAScript: leading white space and one sign are
  skipped, a \<open>0x\<close> prefix is skipped when the radix is 16 (or 0), the longest prefix of
  radix digits is read, and no digit at all gives NaN. (For radix 10 an engine may
  round after the 20th significant digit; the model reads the digits exactly.)
\<close>

definition parseInt :: "string \<Rightarrow> nat \<Rightarrow> jsnum" where
  "parseInt str radix =
     (let S0 = trimStart str;
          neg = (S0 \<noteq> [] \<and> hd S0 = CHR ''-'');
          S1 = (if S0 \<noteq> [] \<and> (hd S0 = CHR ''+'' \<or> hd S0 = CHR ''-'') then tl S0 else S0)
      in if radix \<noteq> 0 \<and> (radix < 2 \<or> 36 < radix) then NaN
         else
           let hasPrefix = ((radix = 0 \<or> radix = 16) \<and> (take 2 S1 = ''0x'' \<or> take 2 S1 = ''0X''));
               S2 = (if hasPrefix then drop 2 S1 else S1);
               R = (if hasPrefix then 16 else if radix = 0 then 10 else radix);
               Z = takeWhile (is_radix_digit R) S2
           in if Z = [] then NaN
              else (case to_double (digits_value R Z) of
                      None \<Rightarrow> (if neg then NegInfinity else PosInfinity)
                    | Some v \<Rightarrow> Num (if neg then - v else v)))"

section \<open>The hexdump parser (\<open>parseHexdump\<close>)\<close>

record HexLine =
  offset :: string
  offsetNum :: jsnum
  bytes :: "string list"
  ascii :: string

text \<open>\<open>/^[0-9a-fA-F]+$/.test(t)\<close> and \<open>/^[ -~]+$/.test(t)\<close>.\<close>

definition is_hex_digit :: "char \<Rightarrow> bool" where
  "is_hex_digit c =
     (let n = (of_char c :: nat) in
      (48 \<le> n \<and> n \<le> 57) \<or> (97 \<le> n \<and> n \<le> 102) \<or> (65 \<le> n \<and> n \<le> 70))"

definition all_hex :: "string \<Rightarrow> bool" where
  "all_hex t = (t \<noteq> [] \<and> list_all is_hex_digit t)"

definition all_printable :: "string \<Rightarrow> bool" where
  "all_printable t =
     (t \<noteq> [] \<and> list_all (\<lambda>c. 32 \<le> (of_char c :: nat) \<and> (of_char c :: nat) \<le> 126) t)"

text \<open>
  The inner loop \<open>for (j = 0; j < hexGroup.length; j += 2)\<close>: each two-character
  \<open>substring(j, j + 2)\<close> is pushed; a last single character is not.
\<close>

function byte_pairs_from :: "nat \<Rightarrow> string \<Rightarrow> string list" where
  "byte_pairs_from j hexGroup =
     (if j < length hexGroup then
        (let byte = take 2 (drop j hexGroup)
         in (if length byte = 2 then [byte] else []) @ byte_pairs_from (j + 2) hexGroup)
      else [])"
  by pat_completeness auto
termination
  by (relation "measure (\<lambda>(j, hexGroup). length hexGroup - j)") auto

declare byte_pairs_from.simps [simp del]

text \<open>
  The body of the loop over \<open>parts[1..]\<close>: one token, the bytes collected so far and
  the ascii text collected so far.
\<close>

definition classify_token :: "string \<Rightarrow> string list \<times> string \<Rightarrow> string list \<times> string" where
  "classify_token hexGroup acc =
     (if all_hex hexGroup \<and> 2 \<le> length hexGroup
      then (fst acc @ byte_pairs_from 0 hexGroup, snd acc)
      else if all_printable hexGroup then (fst acc, snd acc @ hexGroup @ '' '')
      else acc)"

primrec scan_tokens :: "string list \<Rightarrow> string list \<times> string \<Rightarrow> string list \<times> string" where
  "scan_tokens [] acc = acc"
| "scan_tokens (hexGroup # rest) acc = scan_tokens rest (classify_token hexGroup acc)"

text \<open>
  One turn of the loop over the lines: \<open>None\<close> is a \<open>continue\<close> or a line whose byte
  count is not 16, \<open>Some\<close> the record that is pushed.
\<close>

definition parse_line :: "string \<Rightarrow> HexLine option" where
  "parse_line line =
     (if \<not> startsWith line ''0x'' then None
      else
        let parts = split_ws (trim line)
        in if length parts < 3 then None
           else
             let off = hd parts;
                 acc = scan_tokens (drop 1 parts) ([], []);
                 asc = trim (snd acc);
                 num = parseInt off 16
             in if length (fst acc) = 16
                then Some \<lparr>offset = off, offsetNum = num, bytes = fst acc, ascii = asc\<rparr>
                else None)"

primrec parse_lines :: "string list \<Rightarrow> HexLine list \<Rightarrow> HexLine list" where
  "parse_lines [] lines = lines"
| "parse_lines (line # rest) lines =
     (case parse_line line of
        None \<Rightarrow> parse_lines rest lines
      | Some r \<Rightarrow> parse_lines rest (lines @ [r]))"

definition parseHexdump :: "string \<Rightarrow> HexLine list" where
  "parseHexdump output =
     parse_lines (filter (\<lambda>line. trim line \<noteq> []) (split_on (CHR 0x0A) output)) []"

text \<open>The byte pairs a line yields: what the token loop collects from its tokens.\<close>

definition line_bytes :: "string \<Rightarrow> string list" where
  "line_bytes line = fst (scan_tokens (drop 1 (split_ws (trim line))) ([], []))"

section \<open>The terminal input router (\<open>connectStreams\<close>, \<open>term.onData\<close>)\<close>

text \<open>
  \<open>new TextEncoder().encode(s)\<close>: UTF-8. A code unit below 128 is one byte, one
  from 128 to 255 is two bytes.
\<close>

definition encode :: "string \<Rightarrow> nat list" where
  "encode s =
     concat (map (\<lambda>c. let n = (of_char c :: nat)
                       in if n < 128 then [n] else [192 + n div 64, 128 + n mod 64]) s)"

abbreviation CR :: string where
  "CR \<equiv> [CHR 0x0D]"

abbreviation ESC :: char where
  "ESC \<equiv> CHR 0x1B"

abbreviation erase_line :: string where
  "erase_line \<equiv> [ESC, CHR ''['', CHR ''2'', CHR ''K'', CHR 0x0D]"

text \<open>
  The variables the handler closes over. \<open>stdin\<close> tells whether
  \<open>instance.stdin?.getWriter()\<close> gave a writer; \<open>cancelController\<close> whether the variable
  holds an AbortController (\<open>False\<close> is \<open>null\<close>).
\<close>

record router =
  stdin :: bool
  cancelController :: bool
  history :: "string list"
  historyIndex :: int
  currentInput :: string

text \<open>What the handler does to the outside, in the order of the calls.\<close>

datatype effect =
    TermWrite string
  | TermWriteBytes "nat list"
  | TermClear
  | StdinWrite "nat list"
  | AbortCancel
  | CallRestartSession
  | ClipboardReadText

text \<open>
  What the handler reads from the outside: the answer of \<open>prompt(...)\<close> (\<open>None\<close> when
  it is cancelled) and the text of the terminal line the cursor is on.
\<close>

record ui =
  promptReply :: "string option"
  cursorLine :: string

definition init_router :: "bool \<Rightarrow> router" where
  "init_router has_stdin =
     \<lparr>stdin = has_stdin, cancelController = False, history = [], historyIndex = - 1,
      currentInput = []\<rparr>"

text \<open>\<open>stdin?.write(bytes)\<close>: nothing happens without a writer.\<close>

definition stdin_write :: "router \<Rightarrow> nat list \<Rightarrow> effect list" where
  "stdin_write r b = (if stdin r then [StdinWrite b] else [])"

text \<open>
  \<open>history[i]\<close>. Out of range JavaScript reads \<open>undefined\<close>, which the string
  concatenation of the handler turns into the text \<open>undefined\<close>; the model keeps that
  text as the value read (the handler never reads out of range in a state it can
  reach from \<open>init_router\<close>, see \<open>reachable_cursor\<close>).
\<close>

definition history_at :: "string list \<Rightarrow> int \<Rightarrow> string" where
  "history_at h i = (if 0 \<le> i \<and> i < int (length h) then h ! nat i else ''undefined'')"

text \<open>
  \<open>prompt.match(/\[0x.*\]/)?.[0]\<close>: the first \<open>[0x\<close> that is followed on its line by
  a \<open>]\<close>, up to the last \<open>]\<close> of that line (\<open>.\<close> matches no line terminator).
\<close>

definition dot_star_close :: "string \<Rightarrow> string option" where
  "dot_star_close rest =
     (let seg = takeWhile (\<lambda>c. c \<noteq> CHR 0x0A \<and> c \<noteq> CHR 0x0D) rest
      in if CHR '']'' \<in> set seg
         then Some (rev (dropWhile (\<lambda>c. c \<noteq> CHR '']'') (rev seg)))
         else None)"

fun match_prompt :: "string \<Rightarrow> string option" where
  "match_prompt [] = None"
| "match_prompt (c # cs) =
     (if startsWith (c # cs) ''[0x''
      then (case dot_star_close (drop 3 (c # cs)) of
              Some m \<Rightarrow> Some (''[0x'' @ m)
            | None \<Rightarrow> match_prompt cs)
      else match_prompt cs)"

text \<open>
  The handler, branch by branch in the order of the source. Every branch but the last
  returns early; the last one (any other data) falls through to the block that replaces
  the AbortController. \<open>console.log\<close> is left out.
\<close>

definition onData :: "ui \<Rightarrow> string \<Rightarrow> router \<Rightarrow> router \<times> effect list" where
  "onData u d r =
     (if d = [CHR 0x03] then
        (if cancelController r
         then (r\<lparr>cancelController := False\<rparr>,
               [AbortCancel, TermWrite (''^C'' @ CR)] @ stdin_write r (encode CR))
         else (r, []))
      else if d = [CHR 0x16] then (r, [ClipboardReadText])
      else if d = [CHR 0x12] \<or> d = ''R'' then (r, [CallRestartSession])
      else if d = [CHR 0x0C] \<or> d = ''L'' then (r, [TermClear])
      else if d = [CHR 0x06] \<or> d = ''F'' then
        (case promptReply u of
           None \<Rightarrow> (r, [])
         | Some searchTerm \<Rightarrow>
             if searchTerm \<noteq> []
             then (r, stdin_write r (encode (''/ '' @ searchTerm)) @ stdin_write r (encode CR))
             else (r, []))
      else if d = [CHR 0x07] \<or> d = ''G'' then
        (case promptReply u of
           None \<Rightarrow> (r, [])
         | Some address \<Rightarrow>
             if address \<noteq> []
             then (r, stdin_write r (encode (''s '' @ address)) @ stdin_write r (encode CR))
             else (r, []))
      else if d = CR then
        (let pushed = (trim (currentInput r) \<noteq> []);
             r1 = (if pushed
                   then r\<lparr>history := history r @ [currentInput r],
                          historyIndex := int (length (history r @ [currentInput r]))\<rparr>
                   else r);
             e1 = (if pushed
                   then [TermWrite (case match_prompt (cursorLine u) of
                                      Some cprompt \<Rightarrow> erase_line @ cprompt @ '' ''
                                    | None \<Rightarrow> erase_line @ '']> '')]
                   else [])
         in (r1\<lparr>currentInput := []\<rparr>,
             e1 @ stdin_write r (encode (currentInput r)) @ stdin_write r (encode CR)))
      else if d = [ESC, CHR ''['', CHR ''A''] then
        (if 0 < historyIndex r
         then (let i = historyIndex r - 1
               in (r\<lparr>historyIndex := i, currentInput := history_at (history r) i\<rparr>,
                   [TermWrite (erase_line @ history_at (history r) i)]))
         else (r, []))
      else if d = [ESC, CHR ''['', CHR ''B''] then
        (if historyIndex r < int (length (history r)) - 1
         then (let i = historyIndex r + 1
               in (r\<lparr>historyIndex := i, currentInput := history_at (history r) i\<rparr>,
                   [TermWrite (erase_line @ history_at (history r) i)]))
         else if historyIndex r = int (length (history r)) - 1
         then (r\<lparr>historyIndex := historyIndex r + 1, currentInput := []\<rparr>,
               [TermWrite erase_line])
         else (r, []))
      else if d = [CHR 0x7F] then
        (if 0 < length (currentInput r)
         then (r\<lparr>currentInput := butlast (currentInput r)\<rparr>,
               [TermWrite [ESC, CHR ''['', CHR ''D'', CHR '' '', ESC, CHR ''['', CHR ''D'']])
         else (r, []))
      else
        (r\<lparr>currentInput := currentInput r @ d, cancelController := True\<rparr>,
         [TermWrite d] @ (if cancelController r then [AbortCancel] else [])))"

text \<open>The two ways the clipboard read started by Ctrl+V settles.\<close>

definition clipboardResolved :: "string \<Rightarrow> router \<Rightarrow> router \<times> effect list" where
  "clipboardResolved txt r =
     (r\<lparr>currentInput := currentInput r @ txt\<rparr>, [TermWriteBytes (encode txt)])"

definition clipboardRejected :: "router \<Rightarrow> router \<times> effect list" where
  "clipboardRejected r =
     (r, [TermWrite ([CHR 0x0D, CHR 0x0A] @ ''Error: Failed to read clipboard'' @ [CHR 0x0D, CHR 0x0A])])"

text \<open>
  The handler on a sequence of data units, one call after the other: the state after
  the last unit, the states after each unit, and all effects in order.
\<close>

primrec feed :: "ui \<Rightarrow> string list \<Rightarrow> router \<Rightarrow> router" where
  "feed u [] r = r"
| "feed u (d # ds) r = feed u ds (fst (onData u d r))"

primrec feed_states :: "ui \<Rightarrow> string list \<Rightarrow> router \<Rightarrow> router list" where
  "feed_states u [] r = []"
| "feed_states u (d # ds) r = fst (onData u d r) # feed_states u ds (fst (onData u d r))"

primrec feed_effects :: "ui \<Rightarrow> string list \<Rightarrow> router \<Rightarrow> effect list" where
  "feed_effects u [] r = []"
| "feed_effects u (d # ds) r = snd (onData u d r) @ feed_effects u ds (fst (onData u d r))"

text \<open>The bytes that reached the instance input, from a list of effects.\<close>

primrec stdin_bytes :: "effect list \<Rightarrow> nat list" where
  "stdin_bytes [] = []"
| "stdin_bytes (e # es) = (case e of StdinWrite b \<Rightarrow> b @ stdin_bytes es | _ \<Rightarrow> stdin_bytes es)"

text \<open>The history cursor is within \<open>[0, history.length]\<close>.\<close>

definition cursor_in_range :: "router \<Rightarrow> bool" where
  "cursor_in_range r = (0 \<le> historyIndex r \<and> historyIndex r \<le> int (length (history r)))"

section \<open>The session of one tab (\<open>R2Tab\<close>: the create effect and \<open>restartSession\<close>)\<close>

text \<open>A loaded package (\<open>Wasmer.fromWasm(bytes)\<close>) and the primary file.\<close>

datatype wasmer = Wasmer "nat list"

record file_entry =
  file_name :: string
  file_data :: "nat list"

text \<open>
  What \<open>pkg.entrypoint!.run({args, mount})\<close> was called with and what it returned:
  the identity of the new instance, the package, the arguments, the file mounted under
  \<open>./\<close>, the Directory object mounted as \<open>mydir\<close>, and whether the instance has an
  input stream.
\<close>

record instance_handle =
  inst_id :: nat
  inst_pkg :: wasmer
  inst_args :: "string list"
  inst_file :: file_entry
  inst_dir :: nat
  inst_has_stdin :: bool

text \<open>
  The calls a session makes on the terminal and on the runtime, in order. The flag of
  \<open>WriterClose\<close> and \<open>InstanceFree\<close> tells whether the call threw; the source
  catches and drops the exception.
\<close>

datatype call =
    TermWriteS string
  | TermWriteln string
  | WriterClose nat bool
  | InstanceFree nat bool
  | NewDirectory nat
  | EntrypointRun instance_handle

text \<open>
  The component function runs once per render. \<open>pkg\<close>, \<open>termInstance\<close>, \<open>r2Writer\<close> and
  \<open>instance\<close> are constants of that run, and \<open>restartSession\<close>, \<open>connectStreams\<close> and
  the effect callback created by the run close over them: a later \<open>setInstance\<close> or
  \<open>setr2Writer\<close> changes the state the next render reads, not these constants. A
  closure holds the four values that \<open>restartSession\<close> and the effect read.
\<close>

record closure =
  c_pkg :: "wasmer option"
  c_termInstance :: bool
  c_r2Writer :: "nat option"
  c_instance :: "instance_handle option"

text \<open>
  The state of the component: the prop \<open>pkg\<close>, the React state (\<open>termInstance\<close>,
  \<open>r2Writer\<close>, \<open>dir\<close>, \<open>instance\<close>), the counter that gives every \<open>new Directory()\<close>
  and every instance an identity of its own, the calls made so far, the state of the
  installed \<open>onData\<close> handler and the closure whose \<open>connectStreams\<close> installed it.
  \<open>termInstance\<close> only tells whether the terminal exists; what is written to it is in
  \<open>calls\<close>. The writer of an instance carries the identity of the instance.
\<close>

record session =
  pkg :: "wasmer option"
  termInstance :: bool
  r2Writer :: "nat option"
  dir :: "nat option"
  inst :: "instance_handle option"
  next_id :: nat
  calls :: "call list"
  handler :: "router option"
  handler_closure :: "closure option"

text \<open>The values a render in state \<open>s\<close> gives to the functions it creates.\<close>

definition render :: "session \<Rightarrow> closure" where
  "render s =
     \<lparr>c_pkg = pkg s, c_termInstance = termInstance s, c_r2Writer = r2Writer s,
      c_instance = inst s\<rparr>"

text \<open>
  What the runtime does in one start: whether \<open>close()\<close>, \<open>free()\<close> throw (both are
  caught), whether \<open>run\<close> rejects (not caught), whether the new instance has an input
  stream.
\<close>

record runtime =
  close_throws :: bool
  free_throws :: bool
  run_rejects :: bool
  new_has_stdin :: bool

datatype outcome = Returned | Rejected

definition init_session :: "wasmer option \<Rightarrow> bool \<Rightarrow> session" where
  "init_session p t =
     \<lparr>pkg = p, termInstance = t, r2Writer = None, dir = None, inst = None, next_id = 0,
      calls = [], handler = None, handler_closure = None\<rparr>"

definition term_calls :: "call list \<Rightarrow> session \<Rightarrow> session" where
  "term_calls cs s = s\<lparr>calls := calls s @ cs\<rparr>"

definition no_file_message :: string where
  "no_file_message = ''Error: No file provided''"

definition startup_args :: "file_entry \<Rightarrow> string list" where
  "startup_args f = [''-e'', ''io.cache=1'', ''-e'', ''anal.depth=24'', file_name f]"

text \<open>
  \<open>connectStreams\<close> of closure \<open>c\<close>: the writer of the new instance becomes
  \<open>r2Writer\<close>, the old handler is disposed and a new one starts with an empty history.
  The \<open>restartSession\<close> the new handler calls is the one of \<open>c\<close>.
\<close>

definition connectStreams :: "closure \<Rightarrow> instance_handle \<Rightarrow> session \<Rightarrow> session" where
  "connectStreams c i s =
     s\<lparr>r2Writer := (if inst_has_stdin i then Some (inst_id i) else None),
       handler := Some (init_router (inst_has_stdin i)),
       handler_closure := Some c\<rparr>"

text \<open>
  The common end of both starts: \<open>new Directory()\<close>, \<open>setDir\<close>, \<open>run\<close>,
  \<open>setInstance\<close>, \<open>connectStreams\<close>.
\<close>

definition launch ::
  "runtime \<Rightarrow> closure \<Rightarrow> wasmer \<Rightarrow> file_entry \<Rightarrow> session \<Rightarrow> outcome \<times> session" where
  "launch rt c p f s =
     (let mydir = next_id s;
          s1 = s\<lparr>next_id := mydir + 1, dir := Some mydir, calls := calls s @ [NewDirectory mydir]\<rparr>
      in if run_rejects rt then (Rejected, s1)
         else
           let newInstance =
                 \<lparr>inst_id = next_id s1, inst_pkg = p, inst_args = startup_args f,
                  inst_file = f, inst_dir = mydir, inst_has_stdin = new_has_stdin rt\<rparr>;
               s2 = s1\<lparr>next_id := next_id s1 + 1, inst := Some newInstance,
                       calls := calls s1 @ [EntrypointRun newInstance]\<rparr>
           in (Returned, connectStreams c newInstance s2))"

text \<open>The body of the create effect of closure \<open>c\<close>, with the \<open>file\<close> prop.\<close>

definition create ::
  "runtime \<Rightarrow> file_entry option \<Rightarrow> closure \<Rightarrow> session \<Rightarrow> outcome \<times> session" where
  "create rt file c s =
     (case c_pkg c of
        None \<Rightarrow> (Returned, s)
      | Some p \<Rightarrow>
          if \<not> c_termInstance c then (Returned, s)
          else (case file of
                  None \<Rightarrow> (Returned, term_calls [TermWriteln no_file_message] s)
                | Some f \<Rightarrow>
                    launch rt c p f
                      (term_calls [TermWriteS [ESC, CHR ''['', CHR ''A''],
                                   TermWriteS [ESC, CHR ''['', CHR ''2'', CHR ''K''],
                                   TermWriteS CR] s)))"

text \<open>\<open>restartSession\<close> of closure \<open>c\<close>, with the result of \<open>fileStore.getFile()\<close>.\<close>

definition restartSession ::
  "runtime \<Rightarrow> file_entry option \<Rightarrow> closure \<Rightarrow> session \<Rightarrow> outcome \<times> session" where
  "restartSession rt file c s =
     (case c_pkg c of
        None \<Rightarrow> (Returned, s)
      | Some p \<Rightarrow>
          if \<not> c_termInstance c then (Returned, s)
          else (case file of
                  None \<Rightarrow> (Returned, term_calls [TermWriteln no_file_message] s)
                | Some f \<Rightarrow>
                    let s1 = term_calls [TermWriteS [ESC, CHR ''['', CHR ''A''],
                                         TermWriteS [ESC, CHR ''['', CHR ''2'', CHR ''K''],
                                         TermWriteS CR,
                                         TermWriteln ''Restarting session...''] s;
                        s2 = (case c_r2Writer c of
                                None \<Rightarrow> s1
                              | Some w \<Rightarrow> term_calls [WriterClose w (close_throws rt)] s1);
                        s3 = (case c_instance c of
                                None \<Rightarrow> s2
                              | Some i \<Rightarrow> term_calls [InstanceFree (inst_id i) (free_throws rt)] s2)
                    in launch rt c p f s3))"

text \<open>
  The three ways these functions are reached. The effect runs after the render that
  saw \<open>pkg\<close>, \<open>termInstance\<close> or \<open>file\<close> change, with the closure of that render. The
  imperative handle is rebuilt by every render (\<open>restartSession\<close> is among its
  dependencies), so \<open>ref.restartSession()\<close> is the function of the latest render.
  Ctrl+R (or \<open>R\<close>) in the terminal makes the \<open>onData\<close> handler call the
  \<open>restartSession\<close> of the closure whose \<open>connectStreams\<close> installed the handler.
\<close>

definition create_effect :: "runtime \<Rightarrow> file_entry option \<Rightarrow> session \<Rightarrow> outcome \<times> session" where
  "create_effect rt file s = create rt file (render s) s"

definition handle_restartSession ::
  "runtime \<Rightarrow> file_entry option \<Rightarrow> session \<Rightarrow> outcome \<times> session" where
  "handle_restartSession rt file s = restartSession rt file (render s) s"

definition on_restart_key ::
  "runtime \<Rightarrow> file_entry option \<Rightarrow> session \<Rightarrow> outcome \<times> session" where
  "on_restart_key rt file s =
     (case handler_closure s of
        None \<Rightarrow> (Returned, s)
      | Some c \<Rightarrow> restartSession rt file c s)"

text \<open>
  The session states of the specification, read off the component state: a session
  is \<open>Unstarted\<close> as long as no instance has been stored.
\<close>

datatype session_state = Unstarted | Running

definition state_of :: "session \<Rightarrow> session_state" where
  "state_of s = (if inst s = None then Unstarted else Running)"

text \<open>The directories and instances a list of calls allocates.\<close>

definition allocations :: "call list \<Rightarrow> call list" where
  "allocations cs =
     filter (\<lambda>c. case c of NewDirectory _ \<Rightarrow> True | EntrypointRun _ \<Rightarrow> True | _ \<Rightarrow> False) cs"

text \<open>Every identity the state holds was given out by the counter.\<close>

definition ids_allocated :: "session \<Rightarrow> bool" where
  "ids_allocated s =
     ((case dir s of None \<Rightarrow> True | Some d \<Rightarrow> d < next_id s) \<and>
      (case inst s of None \<Rightarrow> True | Some i \<Rightarrow> inst_id i < next_id s \<and> inst_dir i < next_id s))"

section \<open>Package resolution (\<open>initializeWasmer\<close>)\<close>

datatype phase = Initializing | Downloading | Processing | Complete

text \<open>
  The calls of one run, in order: the cache lookup, the fetch, each \<open>reader.read()\<close>,
  the cache store (the points where the run is suspended), and the state setters.
  \<open>LaterSetIsDownloading\<close> is the setter scheduled by \<open>setTimeout(..., 500)\<close>. Progress
  values are JavaScript Numbers; the model computes them as exact rationals.
\<close>

datatype action =
    CacheMatch string
  | SetPkg wasmer
  | SetDownloadPhase phase
  | SetIsDownloading bool
  | SetDownloadProgress rat
  | FetchUrl string
  | ReaderRead
  | CachePut string "nat list"
  | LaterSetIsDownloading bool

text \<open>
  The response of the fetch: the \<open>content-length\<close> header (\<open>None\<close> when absent), the
  chunks of the body (\<open>None\<close> when \<open>response.body\<close> is null), and whether the read after
  the last chunk rejects instead of reporting the end of the stream.
\<close>

record fetch_response =
  content_length :: "string option"
  body_chunks :: "nat list list option"
  read_fails :: bool

text \<open>
  What one run finds: the \<open>version\<close> and \<open>cache\<close> parameters of the page URL (after
  their defaults), the cache entry of the version, whether \<open>Wasmer.fromWasm\<close> accepts
  the bytes, the build variables, the result of the fetch (\<open>None\<close> when it throws) and
  whether \<open>cache.put\<close> rejects.
\<close>

record loader_env =
  version :: string
  doCache :: bool
  cache_entry :: "nat list option"
  fromWasm_ok :: bool
  build_mode :: string
  vercel_url :: "string option"
  base_url :: string
  fetched :: "fetch_response option"
  put_fails :: bool

definition wasmUrl :: "loader_env \<Rightarrow> string" where
  "wasmUrl e =
     (if version e = ''6.0.9'' then ''https://radareorg.github.io/r2wasm/radare2.wasm''
      else if build_mode e = ''production'' \<and>
              (case vercel_url e of None \<Rightarrow> False | Some h \<Rightarrow> h \<noteq> [])
           then ''https://'' @ (case vercel_url e of None \<Rightarrow> [] | Some h \<Rightarrow> h) @
                ''/api/vercel?version='' @ version e
           else base_url e @ ''/wasm/'' @ version e)"

text \<open>\<open>contentLength ? parseInt(contentLength, 10) : 0\<close>.\<close>

definition total_of :: "string option \<Rightarrow> jsnum" where
  "total_of h = (case h of None \<Rightarrow> Num 0 | Some cl \<Rightarrow> if cl = [] then Num 0 else parseInt cl 10)"

text \<open>\<open>total > 0\<close> on Numbers: false for NaN.\<close>

definition positive :: "jsnum \<Rightarrow> bool" where
  "positive t = (case t of Num n \<Rightarrow> 0 < n | PosInfinity \<Rightarrow> True | _ \<Rightarrow> False)"

text \<open>
  \<open>Math.min(30 + (loaded / total) * 50, 80)\<close>, which the source computes only for a
  positive total; \<open>loaded / Infinity\<close> is 0.
\<close>

definition stream_progress :: "jsnum \<Rightarrow> int \<Rightarrow> rat" where
  "stream_progress t loaded =
     (case t of
        Num n \<Rightarrow> min (30 + (of_int loaded / of_int n) * 50) 80
      | _ \<Rightarrow> 30)"

text \<open>
  The loop \<open>while (true) { read; if (done) break; ... }\<close> over the chunks the body
  delivers; its last read is the one that reports the end (or rejects).
\<close>

primrec read_loop :: "jsnum \<Rightarrow> int \<Rightarrow> nat list list \<Rightarrow> action list" where
  "read_loop t loaded [] = [ReaderRead]"
| "read_loop t loaded (chunk # rest) =
     ReaderRead #
     (if positive t then [SetDownloadProgress (stream_progress t (loaded + int (length chunk)))]
      else []) @
     read_loop t (loaded + int (length chunk)) rest"

definition before_fetch :: "loader_env \<Rightarrow> action list" where
  "before_fetch e =
     [CacheMatch (version e), SetDownloadPhase Initializing, SetIsDownloading True,
      SetDownloadProgress 10, SetDownloadPhase Downloading, SetDownloadProgress 30,
      FetchUrl (wasmUrl e)]"

definition streaming :: "fetch_response \<Rightarrow> action list" where
  "streaming resp =
     (case body_chunks resp of
        None \<Rightarrow> []
      | Some chunks \<Rightarrow> read_loop (total_of (content_length resp)) 0 chunks)"

text \<open>
  One run of \<open>initializeWasmer\<close>, from the cache lookup on: the import and the
  \<open>init\<close> of the Wasmer SDK that precede it are taken to have succeeded. The result
  is how the run ends (\<open>Rejected\<close> when an exception leaves the function) and the
  calls it made.
\<close>

definition initializeWasmer :: "loader_env \<Rightarrow> outcome \<times> action list" where
  "initializeWasmer e =
     (case cache_entry e of
        Some buffer \<Rightarrow>
          if fromWasm_ok e then (Returned, [CacheMatch (version e), SetPkg (Wasmer buffer)])
          else (Rejected, [CacheMatch (version e)])
      | None \<Rightarrow>
          (case fetched e of
             None \<Rightarrow> (Returned, before_fetch e @ [SetIsDownloading False])
           | Some resp \<Rightarrow>
               if body_chunks resp \<noteq> None \<and> read_fails resp
               then (Rejected, before_fetch e @ streaming resp)
               else
                 let buffer = concat (case body_chunks resp of None \<Rightarrow> [] | Some chunks \<Rightarrow> chunks);
                     decoding = before_fetch e @ streaming resp @
                       [SetDownloadPhase Processing, SetDownloadProgress 85, SetDownloadProgress 90]
                 in if \<not> fromWasm_ok e then (Rejected, decoding)
                    else
                      let decoded = decoding @ [SetPkg (Wasmer buffer), SetDownloadProgress 95] @
                            (if doCache e then [CachePut (version e) buffer] else [])
                      in if doCache e \<and> put_fails e then (Rejected, decoded)
                         else (Returned,
                               decoded @ [SetDownloadProgress 100, SetDownloadPhase Complete,
                                          LaterSetIsDownloading False])))"

text \<open>The progress values of a list of calls, in order.\<close>

primrec progress_values :: "action list \<Rightarrow> rat list" where
  "progress_values [] = []"
| "progress_values (a # as) =
     (case a of SetDownloadProgress p \<Rightarrow> p # progress_values as | _ \<Rightarrow> progress_values as)"

text \<open>
  The two states \<open>downloadPhase\<close> and \<open>downloadProgress\<close> as a pair; they start as
  \<open>initializing\<close> and 0. A setter call does not change what the page shows at once:
  the root is made by \<open>createRoot\<close>, so the calls made between two points where the
  function is suspended are applied together, and only the render reads the two
  states. \<open>held_from st as\<close> lists the pair held at each suspension point of the calls
  \<open>as\<close> and at their end, starting from \<open>st\<close>: every pair a render of the page can
  read during the run is among them. (The one other \<open>await\<close> of the function, for the
  bytes of a cached response, has no setter call before it.)
\<close>

definition is_suspension :: "action \<Rightarrow> bool" where
  "is_suspension a =
     (case a of CacheMatch _ \<Rightarrow> True | FetchUrl _ \<Rightarrow> True | ReaderRead \<Rightarrow> True
      | CachePut _ _ \<Rightarrow> True | _ \<Rightarrow> False)"

definition apply_setter :: "action \<Rightarrow> phase \<times> rat \<Rightarrow> phase \<times> rat" where
  "apply_setter a st =
     (case a of SetDownloadPhase ph \<Rightarrow> (ph, snd st) | SetDownloadProgress p \<Rightarrow> (fst st, p)
      | _ \<Rightarrow> st)"

primrec held_from :: "phase \<times> rat \<Rightarrow> action list \<Rightarrow> (phase \<times> rat) list" where
  "held_from st [] = [st]"
| "held_from st (a # as) =
     (if is_suspension a then st # held_from st as else held_from (apply_setter a st) as)"

definition held_states :: "action list \<Rightarrow> (phase \<times> rat) list" where
  "held_states as = held_from (Initializing, 0) as"

definition is_fetch :: "action \<Rightarrow> bool" where
  "is_fetch a = (case a of FetchUrl _ \<Rightarrow> True | _ \<Rightarrow> False)"

definition is_progress_report :: "action \<Rightarrow> bool" where
  "is_progress_report a =
     (case a of SetDownloadProgress _ \<Rightarrow> True | SetDownloadPhase _ \<Rightarrow> True
      | SetIsDownloading _ \<Rightarrow> True | LaterSetIsDownloading _ \<Rightarrow> True | _ \<Rightarrow> False)"

section \<open>The proxy endpoint (\<open>app.get('/wasm/:version')\<close>)\<close>

text \<open>
  The three streams of the handler: the body of the upstream response
  (\<open>response.data\<close>), the extractor \<open>unzipper.ParseOne(...)\<close>, and the response
  \<open>res\<close>. Node's \<open>readable.pipe(destination)\<close> returns its destination, and an
  \<open>error\<close> event reaches only the listeners of the stream that emits it.
\<close>

datatype emitter = UpstreamBody | Extractor | Res

definition pipe :: "emitter \<Rightarrow> emitter \<Rightarrow> emitter" where
  "pipe src dst = dst"

record response =
  status :: nat
  headers :: "(string \<times> string) list"
  headersSent :: bool
  sent_body :: string
  finished :: bool

text \<open>
  The state of one request: the response, the stream the handler's \<open>error\<close> listener
  is registered on (\<open>None\<close> before \<open>.on('error', ...)\<close> ran), and whether an \<open>error\<close>
  event found no listener (Node then throws it as an uncaught exception).
\<close>

record request_state =
  res :: response
  error_listener :: "emitter option"
  unhandled_error :: bool

definition fresh_response :: response where
  "fresh_response =
     \<lparr>status = 200, headers = [], headersSent = False, sent_body = [], finished = False\<rparr>"

definition zipUrl :: "string \<Rightarrow> string" where
  "zipUrl v =
     ''https://github.com/radareorg/radare2/releases/download/'' @ v @ ''/radare2-'' @ v @
     ''-wasi.zip''"

text \<open>
  \<open>if (!res.headersSent) res.status(500).send(msg)\<close>. For a string Express'
  \<open>res.send\<close> sets the \<open>Content-Type\<close> to \<open>text/html\<close> when the response has none
  and gives the type the charset \<open>utf-8\<close>. The other headers that Express and the
  \<open>cors\<close> middleware add (\<open>Content-Length\<close>, \<open>ETag\<close>, the origin header) are left out:
  \<open>headers\<close> holds what the handler sets and the content type.
\<close>

definition send_content_type :: "(string \<times> string) list \<Rightarrow> (string \<times> string) list" where
  "send_content_type hs =
     (case map_of hs ''Content-Type'' of
        None \<Rightarrow> hs @ [(''Content-Type'', ''text/html; charset=utf-8'')]
      | Some t \<Rightarrow>
          map (\<lambda>h. if fst h = ''Content-Type'' then (fst h, t @ ''; charset=utf-8'') else h) hs)"

definition send_500 :: "string \<Rightarrow> response \<Rightarrow> response" where
  "send_500 msg r =
     (if headersSent r then r
      else r\<lparr>status := 500, headers := send_content_type (headers r), headersSent := True,
             sent_body := msg, finished := True\<rparr>)"

definition wasm_headers :: "(string \<times> string) list" where
  "wasm_headers =
     [(''Content-Type'', ''application/wasm''),
      (''Access-Control-Allow-Origin'', ''*''),
      (''Access-Control-Allow-Methods'', ''GET, OPTIONS''),
      (''Access-Control-Allow-Headers'', ''*'')]"

text \<open>
  The handler up to the end of its \<open>try\<close> block. The argument tells whether
  \<open>axios.get\<close> resolved; when it rejects, the \<open>catch\<close> block answers.
\<close>

definition handle_request :: "bool \<Rightarrow> request_state" where
  "handle_request fetch_ok =
     (if fetch_ok
      then \<lparr>res = fresh_response\<lparr>headers := wasm_headers\<rparr>,
            error_listener = Some (pipe (pipe UpstreamBody Extractor) Res),
            unhandled_error = False\<rparr>
      else \<lparr>res = send_500 ''Error fetching ZIP file'' fresh_response,
            error_listener = None, unhandled_error = False\<rparr>)"

text \<open>
  What happens on the streams afterwards: extracted bytes arrive at \<open>res\<close> (the first
  write sends the headers), the extraction ends, or a stream emits \<open>error\<close>.
\<close>

datatype stream_event = Chunk string | Finish | ErrorOn emitter

definition on_stream_event :: "stream_event \<Rightarrow> request_state \<Rightarrow> request_state" where
  "on_stream_event ev st =
     (case ev of
        Chunk b \<Rightarrow>
          st\<lparr>res := (res st)\<lparr>headersSent := True, sent_body := sent_body (res st) @ b\<rparr>\<rparr>
      | Finish \<Rightarrow> st\<lparr>res := (res st)\<lparr>headersSent := True, finished := True\<rparr>\<rparr>
      | ErrorOn em \<Rightarrow>
          if error_listener st = Some em
          then st\<lparr>res := send_500 ''Error extracting WASM file'' (res st)\<rparr>
          else st\<lparr>unhandled_error := True\<rparr>)"

primrec on_stream_events :: "stream_event list \<Rightarrow> request_state \<Rightarrow> request_state" where
  "on_stream_events [] st = st"
| "on_stream_events (ev # evs) st = on_stream_events evs (on_stream_event ev st)"

section \<open>Notions used in the statements\<close>

text \<open>
  The states of the history cursor that the handler can be in: the initial one (cursor
  \<open>-1\<close>, empty history) and those with the cursor in range.
\<close>

definition cursor_reachable :: "router \<Rightarrow> bool" where
  "cursor_reachable r = ((historyIndex r = - 1 \<and> history r = []) \<or> cursor_in_range r)"

text \<open>
  What the \<open>restartSession\<close> of a closure calls before it allocates, and the instance
  it launches from a state.
\<close>

definition restart_calls :: "runtime \<Rightarrow> closure \<Rightarrow> call list" where
  "restart_calls rt c =
     [TermWriteS [ESC, CHR ''['', CHR ''A''],
      TermWriteS [ESC, CHR ''['', CHR ''2'', CHR ''K''], TermWriteS CR,
      TermWriteln ''Restarting session...''] @
     (case c_r2Writer c of None \<Rightarrow> [] | Some w \<Rightarrow> [WriterClose w (close_throws rt)]) @
     (case c_instance c of None \<Rightarrow> [] | Some i \<Rightarrow> [InstanceFree (inst_id i) (free_throws rt)])"

definition restarted_instance :: "runtime \<Rightarrow> wasmer \<Rightarrow> file_entry \<Rightarrow> session \<Rightarrow> instance_handle" where
  "restarted_instance rt p f s =
     \<lparr>inst_id = next_id s + 1, inst_pkg = p, inst_args = startup_args f, inst_file = f,
      inst_dir = next_id s, inst_has_stdin = new_has_stdin rt\<rparr>"

text \<open>
  The last three calls of a run that completes, the band of the streaming phase, and
  what the claim asks of a pair of states: in phase \<open>downloading\<close> the progress is in
  the band, and the progress is 100 only in phase \<open>complete\<close>.
\<close>

definition completion :: "action list" where
  "completion = [SetDownloadProgress 100, SetDownloadPhase Complete, LaterSetIsDownloading False]"

definition in_band :: "rat \<Rightarrow> bool" where
  "in_band p = (30 \<le> p \<and> p \<le> 80)"

definition phase_fits :: "phase \<times> rat \<Rightarrow> bool" where
  "phase_fits st =
     ((fst st = Downloading \<longrightarrow> in_band (snd st)) \<and> (snd st = 100 \<longrightarrow> fst st = Complete))"

section \<open>Concrete inputs\<close>

text \<open>
  Hexdump lines: a full line, its record, a line with fifteen byte pairs, and a line
  whose ascii column consists of hexadecimal digits.
\<close>

definition full_line :: string where
  "full_line = ''0x00000000 41 42 43 44 45 46 47 48 49 4a 4b 4c 4d 4e 4f 50  ABCDEFGHIJKLMNOP''"

definition full_record :: HexLine where
  "full_record =
     \<lparr>offset = ''0x00000000'', offsetNum = Num 0,
      bytes = [''41'', ''42'', ''43'', ''44'', ''45'', ''46'', ''47'', ''48'',
               ''49'', ''4a'', ''4b'', ''4c'', ''4d'', ''4e'', ''4f'', ''50''],
      ascii = ''ABCDEFGHIJKLMNOP''\<rparr>"

definition short_line :: string where
  "short_line = ''0x00000010 41 42 43 44 45 46 47 48 49 4a 4b 4c 4d 4e 4f  ABCDEFGHIJKLMNO''"

definition cafe_line :: string where
  "cafe_line = ''0x00000000 43 41 46 45 42 41 42 45 43 41 46 45 42 41 42 45  CAFEBABECAFEBABE''"

definition cafe_data :: "string list" where
  "cafe_data = [''43'', ''41'', ''46'', ''45'', ''42'', ''41'', ''42'', ''45'',
                ''43'', ''41'', ''46'', ''45'', ''42'', ''41'', ''42'', ''45'']"

text \<open>
  Data units of the terminal (up arrow, down arrow, Ctrl+C), a user interface that
  answers no prompt, the handler state after the lines \<open>a\<close>, \<open>b\<close>, \<open>c\<close> have been
  typed and submitted, and the one after \<open>pd\<close> has been typed.
\<close>

definition key_up :: string where
  "key_up = [ESC, CHR ''['', CHR ''A'']"

definition key_down :: string where
  "key_down = [ESC, CHR ''['', CHR ''B'']"

definition ctrl_c :: string where
  "ctrl_c = [CHR 0x03]"

definition plain_ui :: ui where
  "plain_ui = \<lparr>promptReply = None, cursorLine = ''[0x00000000]> ''\<rparr>"

definition abc_router :: router where
  "abc_router = feed plain_ui [''a'', CR, ''b'', CR, ''c'', CR] (init_router True)"

definition pd_typed :: router where
  "pd_typed = feed plain_ui [''pd''] (init_router True)"

text \<open>
  A runtime, a primary file, a package, the session that the create effect starts with
  them, and the four terminal writes that open a restart.
\<close>

definition rt0 :: runtime where
  "rt0 = \<lparr>close_throws = False, free_throws = True, run_rejects = False, new_has_stdin = True\<rparr>"

definition a_out :: file_entry where
  "a_out = \<lparr>file_name = ''a.out'', file_data = [127, 69, 76, 70]\<rparr>"

definition r2_pkg :: wasmer where
  "r2_pkg = Wasmer [0, 97, 115, 109]"

definition running_session :: session where
  "running_session = snd (create_effect rt0 (Some a_out) (init_session (Some r2_pkg) True))"

definition restart_banner :: "call list" where
  "restart_banner =
     [TermWriteS [ESC, CHR ''['', CHR ''A''],
      TermWriteS [ESC, CHR ''['', CHR ''2'', CHR ''K''], TermWriteS CR,
      TermWriteln ''Restarting session...'']"

definition second_instance :: instance_handle where
  "second_instance =
     \<lparr>inst_id = 3, inst_pkg = r2_pkg, inst_args = startup_args a_out, inst_file = a_out,
      inst_dir = 2, inst_has_stdin = True\<rparr>"

text \<open>
  A run that misses the cache (three chunks, advertised length 10, caching requested)
  and the same run with a cache entry.
\<close>

definition miss_env :: loader_env where
  "miss_env =
     \<lparr>version = ''6.0.4'', doCache = True, cache_entry = None, fromWasm_ok = True,
      build_mode = ''development'', vercel_url = None, base_url = [],
      fetched = Some \<lparr>content_length = Some ''10'',
                      body_chunks = Some [[0, 97, 115], [109, 1, 0, 0], [0, 1, 2]],
                      read_fails = False\<rparr>,
      put_fails = False\<rparr>"

definition hit_env :: loader_env where
  "hit_env = miss_env\<lparr>cache_entry := Some [0, 97, 115, 109]\<rparr>"

section \<open>The hexdump parser: properties\<close>

text \<open>
  Splitting at line feeds and the loop over the lines distribute over concatenation,
  so a line can be looked at on its own.
\<close>

lemma split_on_append: "split_on d (a @ d # b) = split_on d a @ split_on d b"
proof (induction a)
  case Nil
  show ?case by simp
next
  case (Cons c a)
  show ?case
  proof (cases "c = d")
    case True
    with Cons show ?thesis by simp
  next
    case False
    obtain w ws where w: "split_on d a = w # ws"
      by (cases "split_on d a") (cases a; simp split: if_splits list.splits)+
    with Cons False show ?thesis by simp
  qed
qed

lemma split_on_no_sep: "d \<notin> set s \<Longrightarrow> split_on d s = [s]"
  by (induction s) auto

lemma parse_lines_append:
  "parse_lines (xs @ ys) acc = parse_lines ys (parse_lines xs acc)"
  by (induction xs arbitrary: acc) (auto split: option.splits)

lemma parse_line_not_16: "length (line_bytes line) \<noteq> 16 \<Longrightarrow> parse_line line = None"
  by (simp add: parse_line_def line_bytes_def Let_def)

lemma parse_lines_drop:
  "parse_line line = None \<Longrightarrow> parse_lines (xs @ line # ys) acc = parse_lines (xs @ ys) acc"
  by (simp add: parse_lines_append)

text \<open>A token of \<open>n\<close> characters gives \<open>n div 2\<close> byte pairs.\<close>

lemma byte_pairs_from_length:
  "length (byte_pairs_from j s) = (length s - j) div 2"
proof (induction j s rule: byte_pairs_from.induct)
  case (1 j s)
  show ?case
  proof (cases "j < length s")
    case True
    then have "length (byte_pairs_from j s) =
       (if Suc j < length s then 1 else 0) + (length s - (j + 2)) div 2"
      using 1 by (subst byte_pairs_from.simps) (auto simp: Let_def min_def)
    also have "\<dots> = (length s - j) div 2" using True by auto
    finally show ?thesis .
  next
    case False
    then show ?thesis by (subst byte_pairs_from.simps) simp
  qed
qed

lemma scan_tokens_append:
  "scan_tokens (xs @ ys) acc = scan_tokens ys (scan_tokens xs acc)"
  by (induction xs arbitrary: acc) auto

lemma parseHexdump_drop_line:
  assumes nl: "CHR 0x0A \<notin> set line" and n16: "length (line_bytes line) \<noteq> 16"
  shows "parseHexdump (pre @ CHR 0x0A # line @ CHR 0x0A # post) = parseHexdump (pre @ CHR 0x0A # post)"
proof -
  have none: "parse_line line = None" using n16 by (rule parse_line_not_16)
  have "split_on (CHR 0x0A) (pre @ CHR 0x0A # line @ CHR 0x0A # post) =
        split_on (CHR 0x0A) pre @ [line] @ split_on (CHR 0x0A) post"
    using nl by (simp add: split_on_append split_on_no_sep)
  moreover have "split_on (CHR 0x0A) (pre @ CHR 0x0A # post) =
        split_on (CHR 0x0A) pre @ split_on (CHR 0x0A) post"
    by (simp add: split_on_append)
  ultimately show ?thesis
    using none by (simp add: parseHexdump_def parse_lines_append)
qed

text \<open>The parser on the concrete lines, evaluated.\<close>

lemma full_line_parsed: "parseHexdump full_line = [full_record]"
  by code_simp

text \<open>
  Claim C1. The single line \<open>full_line\<close> (\<open>0x00000000\<close>, the sixteen pairs 41 to 50,
  \<open>ABCDEFGHIJKLMNOP\<close>) parses to exactly one record with numeric offset 0, the sixteen
  two-character strings and the ascii text. A line whose tokens yield a number of
  byte pairs other than 16 adds no record: the turn of the loop pushes nothing, the
  result list is the one without the line, and the parser's result on a text is the
  result on the text without that line. The parser returns a list and has no error
  result.
\<close>

theorem parseHexdump_full_line_kept_short_line_dropped:
  "parseHexdump full_line = [full_record] \<and>
   (\<forall>line rest acc. length (line_bytes line) \<noteq> 16 \<longrightarrow>
      parse_line line = None \<and> parse_lines (line # rest) acc = parse_lines rest acc) \<and>
   (\<forall>line pre post. CHR 0x0A \<notin> set line \<and> length (line_bytes line) \<noteq> 16 \<longrightarrow>
      parseHexdump (pre @ CHR 0x0A # line @ CHR 0x0A # post) =
      parseHexdump (pre @ CHR 0x0A # post))"
proof (intro conjI allI impI)
  show "parseHexdump full_line = [full_record]" by (rule full_line_parsed)
next
  fix line :: string and rest acc
  assume "length (line_bytes line) \<noteq> 16"
  then show "parse_line line = None" by (rule parse_line_not_16)
  then show "parse_lines (line # rest) acc = parse_lines rest acc" by simp
next
  fix line pre post
  assume "CHR 0x0A \<notin> set line \<and> length (line_bytes line) \<noteq> 16"
  then show "parseHexdump (pre @ CHR 0x0A # line @ CHR 0x0A # post) =
      parseHexdump (pre @ CHR 0x0A # post)"
    by (simp add: parseHexdump_drop_line)
qed

lemma short_line_bytes: "length (line_bytes short_line) = 15"
  by code_simp

lemma short_line_nl: "CHR 0x0A \<notin> set short_line"
  by code_simp

lemma full_line_alone: "parseHexdump (full_line @ CHR 0x0A # []) = [full_record]"
  by code_simp

text \<open>
  The line \<open>short_line\<close> has fifteen byte pairs: alone it gives no record, and after
  \<open>full_line\<close> it leaves the result at the one record of \<open>full_line\<close>.
\<close>

theorem parseHexdump_short_line_witness:
  "length (line_bytes short_line) = 15 \<and>
   parse_line short_line = None \<and>
   parse_lines [short_line] [] = [] \<and>
   parseHexdump (full_line @ CHR 0x0A # short_line @ CHR 0x0A # []) = [full_record]"
proof -
  note th = parseHexdump_full_line_kept_short_line_dropped
  have n: "length (line_bytes short_line) \<noteq> 16" by (simp add: short_line_bytes)
  have a: "parse_line short_line = None \<and> parse_lines (short_line # []) [] = parse_lines [] []"
    by (rule th [THEN conjunct2, THEN conjunct1, rule_format, of short_line "[]" "[]"]) (rule n)
  have b: "parseHexdump (full_line @ CHR 0x0A # short_line @ CHR 0x0A # []) =
     parseHexdump (full_line @ CHR 0x0A # [])"
    by (rule th [THEN conjunct2, THEN conjunct2, rule_format, of short_line full_line "[]"])
       (rule conjI [OF short_line_nl n])
  from a have a1: "parse_line short_line = None" and a2: "parse_lines [short_line] [] = []"
    by simp_all
  show ?thesis
    by (intro conjI short_line_bytes a1 a2) (simp only: b full_line_alone)
qed

lemma classify_hex:
  "all_hex t \<Longrightarrow> 2 \<le> length t \<Longrightarrow> classify_token t acc = (fst acc @ byte_pairs_from 0 t, snd acc)"
  by (simp add: classify_token_def)

text \<open>
  Claim C10. The classification of a token does not look at its position: whatever
  has been collected so far, a token of hexadecimal digits only and of length at
  least 2 is split into byte pairs and adds nothing to the ascii text. So a line whose
  tokens are the offset, data tokens that yield sixteen byte pairs, and a last column
  of hexadecimal digits only (length at least 2) yields more than sixteen byte pairs
  and is dropped.
\<close>

theorem hex_ascii_column_drops_line:
  "(\<forall>t acc. all_hex t \<and> 2 \<le> length t \<longrightarrow>
      classify_token t acc = (fst acc @ byte_pairs_from 0 t, snd acc)) \<and>
   (\<forall>line off toks col.
      startsWith line ''0x'' \<and> split_ws (trim line) = off # toks @ [col] \<and>
      length (fst (scan_tokens toks ([], []))) = 16 \<and> all_hex col \<and> 2 \<le> length col \<longrightarrow>
      length (line_bytes line) = 16 + length col div 2 \<and> 16 < length (line_bytes line) \<and>
      parse_line line = None)"
proof (intro conjI allI impI)
  fix t :: string and acc :: "string list \<times> string"
  assume "all_hex t \<and> 2 \<le> length t"
  then show "classify_token t acc = (fst acc @ byte_pairs_from 0 t, snd acc)"
    by (simp add: classify_hex)
next
  fix line off :: string and toks :: "string list" and col :: string
  assume h: "startsWith line ''0x'' \<and> split_ws (trim line) = off # toks @ [col] \<and>
      length (fst (scan_tokens toks ([], []))) = 16 \<and> all_hex col \<and> 2 \<le> length col"
  have "line_bytes line = fst (scan_tokens toks ([], [])) @ byte_pairs_from 0 col"
    using h by (simp add: line_bytes_def scan_tokens_append classify_hex)
  then show len: "length (line_bytes line) = 16 + length col div 2"
    using h by (simp add: byte_pairs_from_length)
  from h have "1 \<le> length col div 2" by auto
  with len show gt: "16 < length (line_bytes line)" by simp
  then show "parse_line line = None" by (simp add: parse_line_not_16)
qed

lemma cafe_starts: "startsWith cafe_line ''0x''"
  by code_simp

lemma cafe_parts: "split_ws (trim cafe_line) = ''0x00000000'' # cafe_data @ [''CAFEBABECAFEBABE'']"
  by code_simp

lemma cafe_data_bytes: "length (fst (scan_tokens cafe_data ([], []))) = 16"
  by code_simp

lemma cafe_column: "all_hex ''CAFEBABECAFEBABE'' \<and> 2 \<le> length ''CAFEBABECAFEBABE''"
  by code_simp

lemma cafe_dropped: "parseHexdump cafe_line = []"
  by code_simp

lemma cafe_len: "16 + length ''CAFEBABECAFEBABE'' div 2 = (24::nat)"
  by code_simp

text \<open>
  The line \<open>cafe_line\<close>: sixteen data bytes and the column \<open>CAFEBABECAFEBABE\<close> give
  24 byte pairs, and the parser returns no record for it.
\<close>

theorem hex_ascii_column_witness:
  "startsWith cafe_line ''0x'' \<and>
   split_ws (trim cafe_line) = ''0x00000000'' # cafe_data @ [''CAFEBABECAFEBABE''] \<and>
   length (line_bytes cafe_line) = 24 \<and> parse_line cafe_line = None \<and> parseHexdump cafe_line = []"
proof -
  have "length (line_bytes cafe_line) = 16 + length ''CAFEBABECAFEBABE'' div 2 \<and>
        16 < length (line_bytes cafe_line) \<and> parse_line cafe_line = None"
    by (rule hex_ascii_column_drops_line [THEN conjunct2, rule_format,
          of cafe_line "''0x00000000''" cafe_data "''CAFEBABECAFEBABE''"])
       (intro conjI cafe_starts cafe_parts cafe_data_bytes
          cafe_column [THEN conjunct1] cafe_column [THEN conjunct2])
  then have "length (line_bytes cafe_line) = 24" and "parse_line cafe_line = None"
    by (simp_all only: cafe_len)
  then show ?thesis
    by (intro conjI cafe_starts cafe_parts cafe_dropped)
qed


section \<open>The input router: properties\<close>

text \<open>The handler on the single keys the claims are about.\<close>

lemma onData_up:
  "onData u key_up r =
     (if 0 < historyIndex r
      then (r\<lparr>historyIndex := historyIndex r - 1,
              currentInput := history_at (history r) (historyIndex r - 1)\<rparr>,
            [TermWrite (erase_line @ history_at (history r) (historyIndex r - 1))])
      else (r, []))"
  by (simp add: onData_def key_up_def Let_def)

lemma onData_down:
  "onData u key_down r =
     (if historyIndex r < int (length (history r)) - 1
      then (r\<lparr>historyIndex := historyIndex r + 1,
              currentInput := history_at (history r) (historyIndex r + 1)\<rparr>,
            [TermWrite (erase_line @ history_at (history r) (historyIndex r + 1))])
      else if historyIndex r = int (length (history r)) - 1
      then (r\<lparr>historyIndex := historyIndex r + 1, currentInput := []\<rparr>, [TermWrite erase_line])
      else (r, []))"
  by (simp add: onData_def key_down_def Let_def)

lemma onData_ctrl_c:
  "onData u ctrl_c r =
     (if cancelController r
      then (r\<lparr>cancelController := False\<rparr>,
            [AbortCancel, TermWrite (''^C'' @ CR)] @ stdin_write r (encode CR))
      else (r, []))"
  by (simp add: onData_def ctrl_c_def)

lemma onData_enter_state:
  "fst (onData u CR r) =
     (if trim (currentInput r) \<noteq> []
      then r\<lparr>history := history r @ [currentInput r],
             historyIndex := int (length (history r)) + 1, currentInput := []\<rparr>
      else r\<lparr>currentInput := []\<rparr>)"
  by (simp add: onData_def Let_def)

lemma onData_enter_stdin:
  "stdin_bytes (snd (onData u CR r)) =
     (if stdin r then encode (currentInput r) @ encode CR else [])"
  by (simp add: onData_def Let_def stdin_write_def)

lemma encode_CR: "encode CR = [13]"
  by (simp add: encode_def)

text \<open>
  Only a submit and the two arrow keys touch the history and its cursor; a cursor in
  range stays in range.
\<close>

lemma onData_history_index:
  "historyIndex (fst (onData u d r)) = historyIndex r \<and> history (fst (onData u d r)) = history r
   \<or> d = CR \<or> d = [ESC, CHR ''['', CHR ''A''] \<or> d = [ESC, CHR ''['', CHR ''B'']"
  by (simp add: onData_def Let_def split: option.splits)

lemma cursor_preserved: "cursor_in_range r \<Longrightarrow> cursor_in_range (fst (onData u d r))"
  by (auto simp add: onData_def Let_def cursor_in_range_def split: option.splits)

lemma abc_router_value:
  "abc_router = \<lparr>stdin = True, cancelController = True, history = [''a'', ''b'', ''c''],
                  historyIndex = 3, currentInput = []\<rparr>"
  by code_simp

lemma abc_seq: "map currentInput (feed_states plain_ui [key_up, key_up, key_up, key_down] abc_router) = [''c'', ''b'', ''a'', ''b'']"
  by code_simp

lemma trim_single: "\<not> is_space c \<Longrightarrow> trim [c] = [c]"
  by (simp add: trim_def trimStart_def trimEnd_def)

lemma abc_general:
  "feed u [''a'', CR, ''b'', CR, ''c'', CR] (init_router hs) =
     \<lparr>stdin = hs, cancelController = True, history = [''a'', ''b'', ''c''],
      historyIndex = 3, currentInput = []\<rparr>"
  by (simp add: onData_def init_router_def Let_def trim_single is_space_def)

text \<open>
  From the initial state the handler only reaches states in which the cursor is
  \<open>-1\<close> with an empty history or in range, and in these states the two arrow keys
  read the history within its bounds.
\<close>

lemma cursor_reachable_step:
  assumes "cursor_reachable r"
  shows "cursor_reachable (fst (onData u d r))"
proof -
  consider (same) "historyIndex (fst (onData u d r)) = historyIndex r \<and>
                   history (fst (onData u d r)) = history r"
    | (enter) "d = CR" | (up) "d = key_up" | (down) "d = key_down"
    using onData_history_index [of u d r] by (auto simp: key_up_def key_down_def)
  then show ?thesis
  proof cases
    case same
    with assms show ?thesis by (simp add: cursor_reachable_def cursor_in_range_def)
  next
    case enter
    with assms show ?thesis
      by (simp add: onData_enter_state cursor_reachable_def cursor_in_range_def)
  next
    case up
    with assms show ?thesis
      by (auto simp add: onData_up cursor_reachable_def cursor_in_range_def)
  next
    case down
    with assms show ?thesis
      by (auto simp add: onData_down cursor_reachable_def cursor_in_range_def)
  qed
qed

lemma cursor_reachable_feed: "cursor_reachable r \<Longrightarrow> cursor_reachable (feed u ds r)"
  by (induction ds arbitrary: r) (simp_all add: cursor_reachable_step)

lemma reachable_cursor: "cursor_reachable (feed u ds (init_router hs))"
  by (rule cursor_reachable_feed) (simp add: cursor_reachable_def init_router_def)

lemma reachable_reads_in_range:
  assumes "cursor_reachable r"
  shows "(0 < historyIndex r \<longrightarrow> 0 \<le> historyIndex r - 1 \<and> historyIndex r - 1 < int (length (history r))) \<and>
         (historyIndex r < int (length (history r)) - 1 \<longrightarrow>
            0 \<le> historyIndex r + 1 \<and> historyIndex r + 1 < int (length (history r)))"
  using assms by (auto simp: cursor_reachable_def cursor_in_range_def)

text \<open>
  Claim C2, as the code has it. After the lines \<open>a\<close>, \<open>b\<close>, \<open>c\<close> have been submitted
  the cursor is one past the end, so the first \<open>previous\<close> shows the last entry:
  three times \<open>previous\<close> and once \<open>next\<close> give the pending buffers c, b, a, b. A
  fourth \<open>previous\<close> leaves the buffer at \<open>a\<close> and the cursor at 0: it clamps and does
  not wrap. A cursor within \<open>[0, history.length]\<close> stays there under every data unit,
  and every submit of a non-blank buffer puts it at \<open>history.length\<close>. Under \<open>previous\<close>
  and \<open>next\<close> the history is unchanged, a move to a position below
  \<open>history.length\<close> makes the pending buffer the entry at that position, a move to
  \<open>history.length\<close> empties it, and a key that does not move the cursor changes
  nothing.
\<close>

theorem history_navigation_from_last_entry:
  "(\<forall>u hs.
      map currentInput (feed_states u [key_up, key_up, key_up, key_down]
        (feed u [''a'', CR, ''b'', CR, ''c'', CR] (init_router hs))) = [''c'', ''b'', ''a'', ''b''] \<and>
      map currentInput (feed_states u [key_up, key_up, key_up, key_up]
        (feed u [''a'', CR, ''b'', CR, ''c'', CR] (init_router hs))) = [''c'', ''b'', ''a'', ''a''] \<and>
      map historyIndex (feed_states u [key_up, key_up, key_up, key_up]
        (feed u [''a'', CR, ''b'', CR, ''c'', CR] (init_router hs))) = [2, 1, 0, 0]) \<and>
   (\<forall>u r d. cursor_in_range r \<longrightarrow> cursor_in_range (fst (onData u d r))) \<and>
   (\<forall>u r. trim (currentInput r) \<noteq> [] \<longrightarrow>
      historyIndex (fst (onData u CR r)) = int (length (history (fst (onData u CR r))))) \<and>
   (\<forall>u r d. cursor_in_range r \<and> (d = key_up \<or> d = key_down) \<longrightarrow>
      history (fst (onData u d r)) = history r \<and>
      (historyIndex (fst (onData u d r)) = historyIndex r \<longrightarrow> fst (onData u d r) = r) \<and>
      (historyIndex (fst (onData u d r)) \<noteq> historyIndex r \<and>
       historyIndex (fst (onData u d r)) < int (length (history r)) \<longrightarrow>
         currentInput (fst (onData u d r)) = history r ! nat (historyIndex (fst (onData u d r)))) \<and>
      (historyIndex (fst (onData u d r)) \<noteq> historyIndex r \<and>
       historyIndex (fst (onData u d r)) = int (length (history r)) \<longrightarrow>
         currentInput (fst (onData u d r)) = []))"
proof (intro conjI allI impI)
  fix u :: ui and hs :: bool
  show "map currentInput (feed_states u [key_up, key_up, key_up, key_down]
        (feed u [''a'', CR, ''b'', CR, ''c'', CR] (init_router hs))) = [''c'', ''b'', ''a'', ''b'']"
    unfolding abc_general by (simp add: onData_up onData_down history_at_def)
  show "map currentInput (feed_states u [key_up, key_up, key_up, key_up]
        (feed u [''a'', CR, ''b'', CR, ''c'', CR] (init_router hs))) = [''c'', ''b'', ''a'', ''a'']"
    unfolding abc_general by (simp add: onData_up onData_down history_at_def)
  show "map historyIndex (feed_states u [key_up, key_up, key_up, key_up]
        (feed u [''a'', CR, ''b'', CR, ''c'', CR] (init_router hs))) = [2, 1, 0, 0]"
    unfolding abc_general by (simp add: onData_up onData_down history_at_def)
next
  fix u :: ui and r :: router and d :: string
  assume "cursor_in_range r"
  then show "cursor_in_range (fst (onData u d r))" by (rule cursor_preserved)
next
  fix u :: ui and r :: router
  assume "trim (currentInput r) \<noteq> []"
  then show "historyIndex (fst (onData u CR r)) = int (length (history (fst (onData u CR r))))"
    by (simp add: onData_enter_state)
next
  fix u :: ui and r :: router and d :: string
  assume h: "cursor_in_range r \<and> (d = key_up \<or> d = key_down)"
  then show "history (fst (onData u d r)) = history r"
    by (auto simp: onData_up onData_down)
next
  fix u :: ui and r :: router and d :: string
  assume h: "cursor_in_range r \<and> (d = key_up \<or> d = key_down)"
    and "historyIndex (fst (onData u d r)) = historyIndex r"
  then show "fst (onData u d r) = r"
    by (auto simp: onData_up onData_down split: if_splits)
next
  fix u :: ui and r :: router and d :: string
  assume h: "cursor_in_range r \<and> (d = key_up \<or> d = key_down)"
    and "historyIndex (fst (onData u d r)) \<noteq> historyIndex r \<and>
       historyIndex (fst (onData u d r)) < int (length (history r))"
  then show "currentInput (fst (onData u d r)) = history r ! nat (historyIndex (fst (onData u d r)))"
    by (auto simp: onData_up onData_down history_at_def cursor_in_range_def split: if_splits)
next
  fix u :: ui and r :: router and d :: string
  assume h: "cursor_in_range r \<and> (d = key_up \<or> d = key_down)"
    and "historyIndex (fst (onData u d r)) \<noteq> historyIndex r \<and>
       historyIndex (fst (onData u d r)) = int (length (history r))"
  then show "currentInput (fst (onData u d r)) = []"
    by (auto simp: onData_up onData_down history_at_def cursor_in_range_def split: if_splits)
qed

lemma abc_in_range: "cursor_in_range abc_router"
  unfolding abc_router_value by (simp add: cursor_in_range_def)

text \<open>
  The state after the three submits has its cursor in range; one \<open>previous\<close> from
  there keeps it in range, moves it to 2 and shows \<open>c\<close>.
\<close>

theorem history_navigation_witness:
  "cursor_in_range abc_router \<and>
   cursor_in_range (fst (onData plain_ui key_up abc_router)) \<and>
   historyIndex (fst (onData plain_ui key_up abc_router)) = 2 \<and>
   currentInput (fst (onData plain_ui key_up abc_router)) = ''c'' \<and>
   history (fst (onData plain_ui key_up abc_router)) = [''a'', ''b'', ''c'']"
proof -
  let ?r = "fst (onData plain_ui key_up abc_router)"
  note th = history_navigation_from_last_entry
  have i: "historyIndex ?r = 2"
    unfolding abc_router_value by (simp add: onData_up)
  have a: "cursor_in_range ?r"
    by (rule th [THEN conjunct2, THEN conjunct1, rule_format, OF abc_in_range])
  have pre: "cursor_in_range abc_router \<and> (key_up = key_up \<or> key_up = key_down)"
    using abc_in_range by simp
  note nav = th [THEN conjunct2, THEN conjunct2, THEN conjunct2, rule_format, OF pre]
  have h: "history ?r = history abc_router" by (rule nav [THEN conjunct1])
  have moved: "historyIndex ?r \<noteq> historyIndex abc_router \<and> historyIndex ?r < int (length (history abc_router))"
    unfolding i unfolding abc_router_value by simp
  have c: "currentInput ?r = history abc_router ! nat (historyIndex ?r)"
    by (rule nav [THEN conjunct2, THEN conjunct2, THEN conjunct1, rule_format, OF moved])
  have c': "currentInput ?r = ''c''"
    unfolding c i unfolding abc_router_value by simp
  have h': "history ?r = [''a'', ''b'', ''c'']"
    unfolding h unfolding abc_router_value by simp
  show ?thesis using abc_in_range a i c' h' by simp
qed

text \<open>
  Claim C2 as stated names the sequence b, a, a, b; the handler produces c, b, a, b.
\<close>

theorem history_navigation_counterexample:
  "map currentInput (feed_states plain_ui [key_up, key_up, key_up, key_down] abc_router) =
     [''c'', ''b'', ''a'', ''b''] \<and>
   map currentInput (feed_states plain_ui [key_up, key_up, key_up, key_down] abc_router) \<noteq>
     [''b'', ''a'', ''a'', ''b'']"
  by code_simp

lemma pd_typed_value:
  "pd_typed = \<lparr>stdin = True, cancelController = True, history = [], historyIndex = - 1,
                currentInput = ''pd''\<rparr>"
  by code_simp

lemma stdin_bytes_append: "stdin_bytes (xs @ ys) = stdin_bytes xs @ stdin_bytes ys"
  by (induction xs) (auto split: effect.splits)

text \<open>
  Claim C3, as the code has it. The handler acts on Ctrl+C only while it tracks a
  cancel token: it then aborts and drops the token, writes \<open>^C\<close> and a carriage return
  to the terminal, and, when the instance has an input writer, forwards one carriage
  return. Without a token it does nothing. In both cases the byte 3 of the interrupt
  sequence never reaches the instance input and the pending buffer is unchanged.
\<close>

theorem interrupt_only_with_cancel_token:
  "\<forall>u r.
     (cancelController r \<longrightarrow>
        onData u ctrl_c r =
          (r\<lparr>cancelController := False\<rparr>,
           [AbortCancel, TermWrite (''^C'' @ CR)] @ (if stdin r then [StdinWrite [13]] else []))) \<and>
     (\<not> cancelController r \<longrightarrow> onData u ctrl_c r = (r, [])) \<and>
     3 \<notin> set (stdin_bytes (snd (onData u ctrl_c r))) \<and>
     currentInput (fst (onData u ctrl_c r)) = currentInput r"
  by (simp add: onData_ctrl_c stdin_write_def encode_CR)

text \<open>
  After \<open>pd\<close> has been typed a token is tracked and Ctrl+C aborts it, writes the marker
  and forwards the carriage return; in the initial state Ctrl+C changes nothing.
\<close>

theorem interrupt_witness:
  "cancelController pd_typed \<and> stdin pd_typed \<and>
   snd (onData plain_ui ctrl_c pd_typed) = [AbortCancel, TermWrite (''^C'' @ CR), StdinWrite [13]] \<and>
   cancelController (fst (onData plain_ui ctrl_c pd_typed)) = False \<and>
   onData plain_ui ctrl_c (init_router True) = (init_router True, [])"
proof -
  note th = interrupt_only_with_cancel_token [rule_format, of pd_typed plain_ui]
  note th0 = interrupt_only_with_cancel_token [rule_format, of "init_router True" plain_ui]
  have c: "cancelController pd_typed" and s: "stdin pd_typed"
    by (simp_all add: pd_typed_value)
  have n: "\<not> cancelController (init_router True)" by (simp add: init_router_def)
  have e: "onData plain_ui ctrl_c pd_typed =
          (pd_typed\<lparr>cancelController := False\<rparr>,
           [AbortCancel, TermWrite (''^C'' @ CR)] @ (if stdin pd_typed then [StdinWrite [13]] else []))"
    by (rule th [THEN conjunct1, rule_format, OF c])
  have z: "onData plain_ui ctrl_c (init_router True) = (init_router True, [])"
    by (rule th0 [THEN conjunct2, THEN conjunct1, rule_format, OF n])
  show ?thesis using c s z by (simp add: e)
qed

text \<open>
  Claim C3 as stated fails in the state \<open>connectStreams\<close> starts the handler in: no
  token is tracked, and Ctrl+C writes no marker and forwards nothing.
\<close>

theorem interrupt_counterexample:
  "snd (onData plain_ui ctrl_c (init_router True)) = [] \<and>
   TermWrite (''^C'' @ CR) \<notin> set (snd (onData plain_ui ctrl_c (init_router True))) \<and>
   stdin_bytes (snd (onData plain_ui ctrl_c (init_router True))) = []"
  by (simp add: onData_ctrl_c init_router_def)

lemma encode_pd: "encode ''pd'' = [112, 100]"
  by (simp add: encode_def)

lemma trim_pd: "trim ''pd'' = ''pd''"
  by (simp add: trim_def trimStart_def trimEnd_def is_space_def)

lemma onData_pd: "onData u ''pd'' r =
    (r\<lparr>currentInput := currentInput r @ ''pd'', cancelController := True\<rparr>,
     [TermWrite ''pd''] @ (if cancelController r then [AbortCancel] else []))"
  by (simp add: onData_def)

text \<open>
  Claim C8. In a session that has just been connected, the text \<open>pd\<close> followed by the
  line terminator forwards exactly the bytes of \<open>pd\<close> and a carriage return (112, 100,
  13), makes \<open>pd\<close> the only history entry (entry 0), puts the cursor at 1, one past the
  end, and empties the pending buffer. In any state with an input writer, a submit of
  a non-blank pending buffer forwards the buffer and a carriage return, appends the
  buffer to the history, puts the cursor one past the end and empties the buffer.
\<close>

theorem submit_forwards_buffer_and_records_history:
  "(\<forall>u. stdin_bytes (feed_effects u [''pd'', CR] (init_router True)) = [112, 100, 13] \<and>
        history (feed u [''pd'', CR] (init_router True)) = [''pd''] \<and>
        historyIndex (feed u [''pd'', CR] (init_router True)) = 1 \<and>
        currentInput (feed u [''pd'', CR] (init_router True)) = []) \<and>
   (\<forall>u r. stdin r \<and> trim (currentInput r) \<noteq> [] \<longrightarrow>
        stdin_bytes (snd (onData u CR r)) = encode (currentInput r) @ [13] \<and>
        history (fst (onData u CR r)) = history r @ [currentInput r] \<and>
        historyIndex (fst (onData u CR r)) = int (length (history (fst (onData u CR r)))) \<and>
        currentInput (fst (onData u CR r)) = []) \<and>
   (\<forall>u r. stdin r \<and> currentInput r = ''pd'' \<longrightarrow>
        stdin_bytes (snd (onData u CR r)) = [112, 100, 13] \<and>
        history (fst (onData u CR r)) = history r @ [''pd''])"
proof (intro conjI allI impI)
  fix u :: ui
  have st: "fst (onData u ''pd'' (init_router True)) =
        \<lparr>stdin = True, cancelController = True, history = [], historyIndex = - 1,
         currentInput = ''pd''\<rparr>"
    by (simp add: onData_pd init_router_def)
  show "stdin_bytes (feed_effects u [''pd'', CR] (init_router True)) = [112, 100, 13]"
    by (simp add: stdin_bytes_append onData_enter_stdin st encode_pd encode_CR)
       (simp add: onData_pd init_router_def)
  show "history (feed u [''pd'', CR] (init_router True)) = [''pd'']"
    by (simp add: st onData_enter_state trim_pd)
  show "historyIndex (feed u [''pd'', CR] (init_router True)) = 1"
    by (simp add: st onData_enter_state trim_pd)
  show "currentInput (feed u [''pd'', CR] (init_router True)) = []"
    by (simp add: st onData_enter_state trim_pd)
next
  fix u :: ui and r :: router
  assume h: "stdin r \<and> trim (currentInput r) \<noteq> []"
  then show "stdin_bytes (snd (onData u CR r)) = encode (currentInput r) @ [13]"
    by (simp add: onData_enter_stdin encode_CR)
  from h show "history (fst (onData u CR r)) = history r @ [currentInput r]"
    by (simp add: onData_enter_state)
  from h show "historyIndex (fst (onData u CR r)) = int (length (history (fst (onData u CR r))))"
    by (simp add: onData_enter_state)
  from h show "currentInput (fst (onData u CR r)) = []"
    by (simp add: onData_enter_state)
next
  fix u :: ui and r :: router
  assume h: "stdin r \<and> currentInput r = ''pd''"
  then show "stdin_bytes (snd (onData u CR r)) = [112, 100, 13]"
    by (simp add: onData_enter_stdin encode_CR encode_pd)
  from h show "history (fst (onData u CR r)) = history r @ [''pd'']"
    by (simp add: onData_enter_state trim_pd)
qed

text \<open>The general statement at the state in which \<open>pd\<close> has been typed.\<close>

theorem submit_witness:
  "stdin pd_typed \<and> currentInput pd_typed = ''pd'' \<and> trim (currentInput pd_typed) \<noteq> [] \<and>
   stdin_bytes (snd (onData plain_ui CR pd_typed)) = [112, 100, 13] \<and>
   history (fst (onData plain_ui CR pd_typed)) = [''pd''] \<and>
   history (fst (onData plain_ui CR pd_typed)) ! 0 = ''pd'' \<and>
   historyIndex (fst (onData plain_ui CR pd_typed)) = 1 \<and>
   currentInput (fst (onData plain_ui CR pd_typed)) = []"
proof -
  note th = submit_forwards_buffer_and_records_history
  have s: "stdin pd_typed" and c: "currentInput pd_typed = ''pd''" and h0: "history pd_typed = []"
    by (simp_all add: pd_typed_value)
  have t: "trim (currentInput pd_typed) \<noteq> []" by (simp add: c trim_pd)
  have pre: "stdin pd_typed \<and> trim (currentInput pd_typed) \<noteq> []" using s t by simp
  note g = th [THEN conjunct2, THEN conjunct1, rule_format, OF pre]
  have b: "stdin_bytes (snd (onData plain_ui CR pd_typed)) = [112, 100, 13]"
    using g [of plain_ui] by (simp add: c encode_pd)
  have h: "history (fst (onData plain_ui CR pd_typed)) = [''pd'']"
    using g [of plain_ui] by (simp add: c h0)
  have i: "historyIndex (fst (onData plain_ui CR pd_typed)) = 1"
    using g [of plain_ui] by (simp add: h)
  have e: "currentInput (fst (onData plain_ui CR pd_typed)) = []"
    using g [of plain_ui] by simp
  show ?thesis using s c t b h i e by simp
qed

section \<open>The session of one tab: properties\<close>

text \<open>
  The identities in the state come from the counter: this holds initially and every
  start keeps it.
\<close>

lemma ids_allocated_init: "ids_allocated (init_session p t)"
  by (simp add: ids_allocated_def init_session_def)

lemma launch_ids:
  "ids_allocated s \<Longrightarrow> ids_allocated (snd (launch rt c p f s))"
  by (auto simp: launch_def Let_def ids_allocated_def connectStreams_def split: option.splits)

lemma term_calls_ids [simp]: "ids_allocated (term_calls cs s) = ids_allocated s"
  by (simp add: term_calls_def ids_allocated_def split: option.splits)

lemma create_ids: "ids_allocated s \<Longrightarrow> ids_allocated (snd (create rt file c s))"
  by (auto simp: create_def launch_ids split: option.splits)

lemma restart_ids: "ids_allocated s \<Longrightarrow> ids_allocated (snd (restartSession rt file c s))"
  by (auto simp: restartSession_def Let_def launch_ids split: option.splits)

lemma create_no_file:
  "c_pkg c = Some p \<Longrightarrow> c_termInstance c \<Longrightarrow>
   create rt None c s = (Returned, s\<lparr>calls := calls s @ [TermWriteln no_file_message]\<rparr>)"
  by (simp add: create_def term_calls_def)

lemma restart_no_file:
  "c_pkg c = Some p \<Longrightarrow> c_termInstance c \<Longrightarrow>
   restartSession rt None c s = (Returned, s\<lparr>calls := calls s @ [TermWriteln no_file_message]\<rparr>)"
  by (simp add: restartSession_def term_calls_def)

lemma guard_returns:
  "c_pkg c = None \<or> \<not> c_termInstance c \<Longrightarrow>
   create rt file c s = (Returned, s) \<and> restartSession rt file c s = (Returned, s)"
  by (auto simp: create_def restartSession_def split: option.splits)

text \<open>
  Claim C6, as the code has it. With the package and the terminal present and the
  primary file absent, the create effect and \<open>restartSession\<close> write the line
  \<open>Error: No file provided\<close> to the terminal and return (they do not throw); they
  allocate no directory and no instance and leave the session state as it was, so an
  Unstarted session stays Unstarted. Without the package or without the terminal both
  return at once and write nothing.
\<close>

theorem absent_file_writes_message_and_starts_nothing:
  "(\<forall>rt c s p. c_pkg c = Some p \<and> c_termInstance c \<longrightarrow>
      create rt None c s = (Returned, s\<lparr>calls := calls s @ [TermWriteln no_file_message]\<rparr>) \<and>
      restartSession rt None c s = (Returned, s\<lparr>calls := calls s @ [TermWriteln no_file_message]\<rparr>) \<and>
      allocations (calls (snd (create rt None c s))) = allocations (calls s) \<and>
      allocations (calls (snd (restartSession rt None c s))) = allocations (calls s) \<and>
      state_of (snd (create rt None c s)) = state_of s \<and>
      state_of (snd (restartSession rt None c s)) = state_of s) \<and>
   (\<forall>rt c s. c_pkg c = None \<or> \<not> c_termInstance c \<longrightarrow>
      create rt None c s = (Returned, s) \<and> restartSession rt None c s = (Returned, s))"
proof (intro conjI allI impI)
  fix rt :: runtime and c :: closure and s :: session and p :: wasmer
  assume h: "c_pkg c = Some p \<and> c_termInstance c"
  then show cr: "create rt None c s = (Returned, s\<lparr>calls := calls s @ [TermWriteln no_file_message]\<rparr>)"
    by (simp add: create_no_file)
  from h show r: "restartSession rt None c s = (Returned, s\<lparr>calls := calls s @ [TermWriteln no_file_message]\<rparr>)"
    by (simp add: restart_no_file)
  show "allocations (calls (snd (create rt None c s))) = allocations (calls s)"
    by (simp add: cr allocations_def)
  show "allocations (calls (snd (restartSession rt None c s))) = allocations (calls s)"
    by (simp add: r allocations_def)
  show "state_of (snd (create rt None c s)) = state_of s"
    by (simp add: cr state_of_def)
  show "state_of (snd (restartSession rt None c s)) = state_of s"
    by (simp add: r state_of_def)
next
  fix rt :: runtime and c :: closure and s :: session
  assume h: "c_pkg c = None \<or> \<not> c_termInstance c"
  then show "create rt None c s = (Returned, s)" using guard_returns by blast
  from h show "restartSession rt None c s = (Returned, s)" using guard_returns by blast
qed

lemma init_unstarted: "state_of (init_session p t) = Unstarted"
  by (simp add: state_of_def init_session_def)

text \<open>
  A session with package and terminal and no file: the message is the only call of
  the create effect, the session stays Unstarted and a restart allocates nothing;
  without the package nothing is written.
\<close>

theorem absent_file_witness:
  "c_pkg (render (init_session (Some r2_pkg) True)) = Some r2_pkg \<and>
   c_termInstance (render (init_session (Some r2_pkg) True)) \<and>
   fst (create_effect rt0 None (init_session (Some r2_pkg) True)) = Returned \<and>
   calls (snd (create_effect rt0 None (init_session (Some r2_pkg) True))) =
     [TermWriteln ''Error: No file provided''] \<and>
   state_of (snd (create_effect rt0 None (init_session (Some r2_pkg) True))) = Unstarted \<and>
   allocations (calls (snd (handle_restartSession rt0 None (init_session (Some r2_pkg) True)))) = [] \<and>
   create_effect rt0 None (init_session None True) = (Returned, init_session None True)"
proof -
  let ?s = "init_session (Some r2_pkg) True"
  let ?n = "init_session None True"
  note th = absent_file_writes_message_and_starts_nothing
  have pre: "c_pkg (render ?s) = Some r2_pkg \<and> c_termInstance (render ?s)"
    by (simp add: init_session_def render_def)
  note g = th [THEN conjunct1, rule_format, OF pre, of rt0 ?s]
  have pre0: "c_pkg (render ?n) = None \<or> \<not> c_termInstance (render ?n)"
    by (simp add: init_session_def render_def)
  note g0 = th [THEN conjunct2, rule_format, OF pre0, of rt0 ?n]
  have c: "create_effect rt0 None ?s = (Returned, ?s\<lparr>calls := calls ?s @ [TermWriteln no_file_message]\<rparr>)"
    unfolding create_effect_def by (rule g [THEN conjunct1])
  have st: "state_of (snd (create_effect rt0 None ?s)) = Unstarted"
    unfolding create_effect_def
    using g [THEN conjunct2, THEN conjunct2, THEN conjunct2, THEN conjunct2, THEN conjunct1]
    by (simp only: init_unstarted)
  have al0: "allocations (calls ?s) = []"
    by (simp add: init_session_def allocations_def)
  have al: "allocations (calls (snd (handle_restartSession rt0 None ?s))) = []"
    unfolding handle_restartSession_def
    using g [THEN conjunct2, THEN conjunct2, THEN conjunct2, THEN conjunct1]
    by (simp only: al0)
  have cs: "calls (snd (create_effect rt0 None ?s)) = [TermWriteln ''Error: No file provided'']"
    unfolding c by (simp add: init_session_def no_file_message_def)
  have z: "create_effect rt0 None ?n = (Returned, ?n)"
    unfolding create_effect_def by (rule g0 [THEN conjunct1])
  show ?thesis
    by (intro conjI pre [THEN conjunct1] pre [THEN conjunct2] cs st al z) (simp add: c)
qed

lemma first_closure:
  "render (init_session (Some r2_pkg) True) =
     \<lparr>c_pkg = Some r2_pkg, c_termInstance = True, c_r2Writer = None, c_instance = None\<rparr>"
  by (simp add: render_def init_session_def)

lemma running_session_value:
  "running_session =
     \<lparr>pkg = Some r2_pkg, termInstance = True, r2Writer = Some 1, dir = Some 0,
      inst = Some \<lparr>inst_id = 1, inst_pkg = r2_pkg, inst_args = startup_args a_out,
                   inst_file = a_out, inst_dir = 0, inst_has_stdin = True\<rparr>,
      next_id = 2,
      calls = [TermWriteS [ESC, CHR ''['', CHR ''A''],
               TermWriteS [ESC, CHR ''['', CHR ''2'', CHR ''K''], TermWriteS CR,
               NewDirectory 0,
               EntrypointRun \<lparr>inst_id = 1, inst_pkg = r2_pkg, inst_args = startup_args a_out,
                              inst_file = a_out, inst_dir = 0, inst_has_stdin = True\<rparr>],
      handler = Some (init_router True),
      handler_closure =
        Some \<lparr>c_pkg = Some r2_pkg, c_termInstance = True, c_r2Writer = None, c_instance = None\<rparr>\<rparr>"
  by (simp add: running_session_def create_effect_def first_closure create_def launch_def Let_def
        term_calls_def connectStreams_def rt0_def)
     (simp add: init_session_def)

text \<open>
  Claim C6 as stated fails in two places: while the package is still absent the create
  effect writes no message, and a restart of a running session with no file in the
  store leaves the session Running, not Unstarted.
\<close>

theorem absent_file_counterexample:
  "calls (snd (create_effect rt0 None (init_session None True))) = [] \<and>
   state_of running_session = Running \<and>
   state_of (snd (handle_restartSession rt0 None running_session)) = Running"
  by (simp add: create_effect_def create_def render_def init_session_def state_of_def
        handle_restartSession_def restartSession_def term_calls_def running_session_value)

text \<open>
  What a restart that passes its guards and whose \<open>run\<close> resolves does, for any
  closure: the terminal writes, the close and the free of what the closure holds, a
  new directory, the new instance.
\<close>

lemma restart_result:
  assumes "c_pkg c = Some p" "c_termInstance c" "\<not> run_rejects rt"
  shows "restartSession rt (Some f) c s =
     (Returned,
      s\<lparr>r2Writer := (if new_has_stdin rt then Some (next_id s + 1) else None),
        dir := Some (next_id s),
        inst := Some (restarted_instance rt p f s),
        next_id := next_id s + 2,
        calls := calls s @ restart_calls rt c @
                 [NewDirectory (next_id s), EntrypointRun (restarted_instance rt p f s)],
        handler := Some (init_router (new_has_stdin rt)),
        handler_closure := Some c\<rparr>)"
  using assms
  by (cases "c_r2Writer c"; cases "c_instance c")
     (simp_all add: restartSession_def launch_def Let_def term_calls_def connectStreams_def
        restart_calls_def restarted_instance_def)

lemma restart_directory:
  assumes "c_pkg c = Some p" "c_termInstance c"
  shows "dir (snd (restartSession rt (Some f) c s)) = Some (next_id s)"
  using assms
  by (cases "c_r2Writer c"; cases "c_instance c")
     (simp_all add: restartSession_def launch_def Let_def term_calls_def connectStreams_def)

text \<open>
  The directory of a restart is new: it is not the directory of the state and not the
  directory of the instance in the state. The new instance gets the package of the
  closure, the file of the store and the new directory.
\<close>

lemma restart_fresh_directory:
  assumes "ids_allocated s" "c_pkg c = Some p" "c_termInstance c"
  shows "dir (snd (restartSession rt (Some f) c s)) \<noteq> dir s \<and>
         (case inst s of None \<Rightarrow> True
          | Some i \<Rightarrow> dir (snd (restartSession rt (Some f) c s)) \<noteq> Some (inst_dir i))"
  using assms
  by (auto simp: restart_directory ids_allocated_def split: option.splits)

lemma restart_new_instance:
  assumes "c_pkg c = Some p" "c_termInstance c" "\<not> run_rejects rt"
  shows "inst (snd (restartSession rt (Some f) c s)) = Some (restarted_instance rt p f s) \<and>
         inst_pkg (restarted_instance rt p f s) = p \<and>
         inst_file (restarted_instance rt p f s) = f \<and>
         inst_dir (restarted_instance rt p f s) = next_id s"
  using assms by (simp add: restart_result restarted_instance_def)

lemma running_closure:
  "render running_session =
     \<lparr>c_pkg = Some r2_pkg, c_termInstance = True, c_r2Writer = Some 1,
      c_instance = Some \<lparr>inst_id = 1, inst_pkg = r2_pkg, inst_args = startup_args a_out,
                   inst_file = a_out, inst_dir = 0, inst_has_stdin = True\<rparr>\<rparr>"
  by (simp add: render_def running_session_value)

text \<open>
  Through the imperative handle the restart closes the writer and frees the instance
  of the running session before it allocates.
\<close>

lemma handle_restart_frees_previous:
  "calls (snd (handle_restartSession rt0 (Some a_out) running_session)) =
     calls running_session @ restart_banner @
     [WriterClose 1 False, InstanceFree 1 True, NewDirectory 2, EntrypointRun second_instance]"
proof -
  have n: "next_id running_session = 2" by (simp add: running_session_value)
  have "restartSession rt0 (Some a_out) (render running_session) running_session =
     (Returned,
      running_session\<lparr>r2Writer := (if new_has_stdin rt0 then Some (next_id running_session + 1) else None),
        dir := Some (next_id running_session),
        inst := Some (restarted_instance rt0 r2_pkg a_out running_session),
        next_id := next_id running_session + 2,
        calls := calls running_session @ restart_calls rt0 (render running_session) @
                 [NewDirectory (next_id running_session),
                  EntrypointRun (restarted_instance rt0 r2_pkg a_out running_session)],
        handler := Some (init_router (new_has_stdin rt0)),
        handler_closure := Some (render running_session)\<rparr>)"
    by (rule restart_result) (simp_all add: running_closure rt0_def)
  then show ?thesis
    by (simp add: handle_restartSession_def restart_calls_def running_closure rt0_def
          restarted_instance_def n restart_banner_def second_instance_def)
qed

text \<open>
  Claim C7, the close and the free of the previous instance. The handler that
  \<open>connectStreams\<close> installed after the create effect calls the \<open>restartSession\<close> of
  the render in which the effect ran, and in that render \<open>r2Writer\<close> and \<open>instance\<close>
  were still empty. Ctrl+R in the running session therefore allocates directory 2 and
  launches instance 3 without any close of writer 1 or free of instance 1: the calls
  it adds are the four terminal writes, \<open>new Directory()\<close> and \<open>run\<close>.
\<close>

theorem restart_key_keeps_previous_instance:
  "handler_closure running_session =
     Some \<lparr>c_pkg = Some r2_pkg, c_termInstance = True, c_r2Writer = None, c_instance = None\<rparr> \<and>
   r2Writer running_session = Some 1 \<and>
   inst running_session =
     Some \<lparr>inst_id = 1, inst_pkg = r2_pkg, inst_args = startup_args a_out,
           inst_file = a_out, inst_dir = 0, inst_has_stdin = True\<rparr> \<and>
   calls (snd (on_restart_key rt0 (Some a_out) running_session)) =
     calls running_session @ restart_banner @ [NewDirectory 2, EntrypointRun second_instance] \<and>
   inst (snd (on_restart_key rt0 (Some a_out) running_session)) = Some second_instance \<and>
   dir (snd (on_restart_key rt0 (Some a_out) running_session)) = Some 2"
proof -
  let ?c = "\<lparr>c_pkg = Some r2_pkg, c_termInstance = True, c_r2Writer = None, c_instance = None\<rparr>"
  have hc: "handler_closure running_session = Some ?c"
    and w: "r2Writer running_session = Some 1"
    and i: "inst running_session =
       Some \<lparr>inst_id = 1, inst_pkg = r2_pkg, inst_args = startup_args a_out,
             inst_file = a_out, inst_dir = 0, inst_has_stdin = True\<rparr>"
    and n: "next_id running_session = 2"
    by (simp_all add: running_session_value)
  have r: "restartSession rt0 (Some a_out) ?c running_session =
     (Returned,
      running_session\<lparr>r2Writer := (if new_has_stdin rt0 then Some (next_id running_session + 1) else None),
        dir := Some (next_id running_session),
        inst := Some (restarted_instance rt0 r2_pkg a_out running_session),
        next_id := next_id running_session + 2,
        calls := calls running_session @ restart_calls rt0 ?c @
                 [NewDirectory (next_id running_session),
                  EntrypointRun (restarted_instance rt0 r2_pkg a_out running_session)],
        handler := Some (init_router (new_has_stdin rt0)),
        handler_closure := Some ?c\<rparr>)"
    by (rule restart_result) (simp_all add: rt0_def)
  have k: "on_restart_key rt0 (Some a_out) running_session =
           restartSession rt0 (Some a_out) ?c running_session"
    by (simp add: on_restart_key_def hc)
  have ri: "restarted_instance rt0 r2_pkg a_out running_session = second_instance"
    by (simp add: restarted_instance_def second_instance_def n rt0_def)
  have rc: "restart_calls rt0 ?c = restart_banner"
    by (simp add: restart_calls_def restart_banner_def)
  show ?thesis
    by (intro conjI hc w i) (simp_all add: k r ri rc n)
qed

text \<open>The restart key makes the handler call \<open>restartSession\<close> and nothing else.\<close>

lemma restart_key_calls_restartSession:
  "onData u [CHR 0x12] r = (r, [CallRestartSession]) \<and> onData u ''R'' r = (r, [CallRestartSession])"
  by (simp add: onData_def)

section \<open>Package resolution: properties\<close>

text \<open>
  The values of the streaming loop lie in the band and do not decrease; the values of
  a run are 10 and 30, those of the loop, and then a prefix of 85, 90, 95, 100.
\<close>

lemma progress_values_append:
  "progress_values (xs @ ys) = progress_values xs @ progress_values ys"
  by (induction xs) (auto split: action.splits)

lemma stream_progress_band: "positive t \<Longrightarrow> 0 \<le> l \<Longrightarrow> in_band (stream_progress t l)"
  by (cases t) (auto simp: positive_def stream_progress_def in_band_def)

lemma stream_progress_mono:
  "positive t \<Longrightarrow> l \<le> l' \<Longrightarrow> stream_progress t l \<le> stream_progress t l'"
  by (cases t) (auto simp: positive_def stream_progress_def divide_right_mono min_le_iff_disj)

lemma read_loop_band:
  "0 \<le> l \<Longrightarrow> list_all in_band (progress_values (read_loop t l cs))"
  by (induction cs arbitrary: l) (auto simp: stream_progress_band)

lemma read_loop_lower:
  "positive t \<Longrightarrow> p \<in> set (progress_values (read_loop t l cs)) \<Longrightarrow> stream_progress t l \<le> p"
proof (induction cs arbitrary: l)
  case Nil
  then show ?case by simp
next
  case (Cons c cs)
  have m: "stream_progress t l \<le> stream_progress t (l + int (length c))"
    using Cons.prems(1) by (simp add: stream_progress_mono)
  from Cons.prems(2) Cons.prems(1)
  have "p = stream_progress t (l + int (length c)) \<or>
        p \<in> set (progress_values (read_loop t (l + int (length c)) cs))"
    by simp
  then show ?case
  proof
    assume "p = stream_progress t (l + int (length c))"
    with m show ?thesis by simp
  next
    assume "p \<in> set (progress_values (read_loop t (l + int (length c)) cs))"
    then have "stream_progress t (l + int (length c)) \<le> p"
      using Cons.IH Cons.prems(1) by blast
    with m show ?thesis by simp
  qed
qed

lemma read_loop_sorted: "sorted (progress_values (read_loop t l cs))"
proof (induction cs arbitrary: l)
  case Nil
  show ?case by simp
next
  case (Cons c cs)
  show ?case
  proof (cases "positive t")
    case True
    then show ?thesis using Cons.IH read_loop_lower [OF True] by auto
  next
    case False
    then show ?thesis using Cons.IH by simp
  qed
qed

lemma streaming_band: "list_all in_band (progress_values (streaming resp))"
  by (simp add: streaming_def read_loop_band split: option.splits)

lemma streaming_sorted: "sorted (progress_values (streaming resp))"
  by (simp add: streaming_def read_loop_sorted split: option.splits)

lemma before_fetch_values: "progress_values (before_fetch e) = [10, 30]"
  by (simp add: before_fetch_def)

lemma in_band_set:
  "list_all in_band xs \<Longrightarrow> p \<in> set xs \<Longrightarrow> 30 \<le> p \<and> p \<le> 80"
  by (auto simp: list_all_iff in_band_def)

lemma sorted_run_values:
  assumes "list_all in_band xs" "sorted xs" "sorted ys" "list_all (\<lambda>p. 85 \<le> p) ys"
  shows "sorted ([10, 30] @ xs @ ys)"
  using assms by (fastforce simp: sorted_append list_all_iff in_band_def)

lemma run_progress_values:
  "\<exists>ys. progress_values (snd (initializeWasmer e)) = [] \<or>
        (progress_values (snd (initializeWasmer e)) =
           [10, 30] @ progress_values (streaming (case fetched e of Some resp \<Rightarrow> resp)) @ ys \<and>
         fetched e \<noteq> None \<and> ys \<in> {[], [85, 90], [85, 90, 95], [85, 90, 95, 100]}) \<or>
        progress_values (snd (initializeWasmer e)) = [10, 30]"
  by (auto simp: initializeWasmer_def Let_def progress_values_append before_fetch_values
        split: option.splits)

lemma run_sorted: "sorted (progress_values (snd (initializeWasmer e)))"
proof -
  obtain ys where "progress_values (snd (initializeWasmer e)) = [] \<or>
        (progress_values (snd (initializeWasmer e)) =
           [10, 30] @ progress_values (streaming (case fetched e of Some resp \<Rightarrow> resp)) @ ys \<and>
         fetched e \<noteq> None \<and> ys \<in> {[], [85, 90], [85, 90, 95], [85, 90, 95, 100]}) \<or>
        progress_values (snd (initializeWasmer e)) = [10, 30]"
    using run_progress_values by blast
  then consider
      (none) "progress_values (snd (initializeWasmer e)) = []"
    | (stream) "progress_values (snd (initializeWasmer e)) =
           [10, 30] @ progress_values (streaming (case fetched e of Some resp \<Rightarrow> resp)) @ ys"
        "ys \<in> {[], [85, 90], [85, 90, 95], [85, 90, 95, 100]}"
    | (fail) "progress_values (snd (initializeWasmer e)) = [10, 30]"
    by blast
  then show ?thesis
  proof cases
    case none
    then show ?thesis by simp
  next
    case stream
    have "sorted ys" and "list_all (\<lambda>p. 85 \<le> p) ys" using stream(2) by auto
    then show ?thesis
      unfolding stream(1) by (intro sorted_run_values streaming_band streaming_sorted)
  next
    case fail
    then show ?thesis by simp
  qed
qed

lemma streaming_no_100: "100 \<notin> set (progress_values (streaming resp))"
  using streaming_band [of resp] by (auto simp: list_all_iff in_band_def)

lemma hundred_ends_run:
  assumes "100 \<in> set (progress_values (snd (initializeWasmer e)))"
  shows "fst (initializeWasmer e) = Returned \<and>
         (\<exists>pre. snd (initializeWasmer e) = pre @ completion \<and> 100 \<notin> set (progress_values pre))"
proof (cases "cache_entry e")
  case (Some b)
  with assms show ?thesis by (simp add: initializeWasmer_def split: if_splits)
next
  case None
  show ?thesis
  proof (cases "fetched e")
    case fnone: None
    with None assms show ?thesis by (simp add: initializeWasmer_def before_fetch_def)
  next
    case (Some resp)
    let ?decoded = "before_fetch e @ streaming resp @
        [SetDownloadPhase Processing, SetDownloadProgress 85, SetDownloadProgress 90,
         SetPkg (Wasmer (concat (case body_chunks resp of None \<Rightarrow> [] | Some chunks \<Rightarrow> chunks))),
         SetDownloadProgress 95] @
        (if doCache e
         then [CachePut (version e) (concat (case body_chunks resp of None \<Rightarrow> [] | Some chunks \<Rightarrow> chunks))]
         else [])"
    have no: "100 \<notin> set (progress_values ?decoded)"
      by (simp add: progress_values_append before_fetch_values streaming_no_100)
    have fin: "initializeWasmer e = (Returned, ?decoded @ completion)"
      using None Some assms streaming_no_100 [of resp]
      by (auto simp add: initializeWasmer_def Let_def progress_values_append before_fetch_values
            completion_def split: if_splits)
    show ?thesis using no fin by (metis fst_conv snd_conv)
  qed
qed

text \<open>
  The pairs held at the suspension points: the streaming loop keeps the phase
  \<open>downloading\<close> and a progress in the band, and what follows the loop is held only
  as \<open>processing\<close> with 90 or 95 or as \<open>complete\<close> with 100.
\<close>

lemma held_from_nonempty: "held_from st as \<noteq> []"
  by (induction as arbitrary: st) auto

lemma held_read_loop:
  assumes "in_band p" and "0 \<le> l"
    and cont: "\<And>q. in_band q \<Longrightarrow> list_all phase_fits (held_from (Downloading, q) rest)"
  shows "list_all phase_fits (held_from (Downloading, p) (read_loop t l cs @ rest))"
  using assms(1,2)
proof (induction cs arbitrary: p l)
  case Nil
  have "phase_fits (Downloading, p)"
    using Nil.prems(1) by (simp add: phase_fits_def in_band_def)
  then show ?case
    using cont [OF Nil.prems(1)] by (simp add: is_suspension_def)
next
  case (Cons c cs)
  have here: "phase_fits (Downloading, p)"
    using Cons.prems(1) by (simp add: phase_fits_def in_band_def)
  have l': "0 \<le> l + int (length c)" using Cons.prems(2) by simp
  show ?case
  proof (cases "positive t")
    case True
    have "in_band (stream_progress t (l + int (length c)))"
      using True l' by (rule stream_progress_band)
    then have "list_all phase_fits
        (held_from (Downloading, stream_progress t (l + int (length c)))
           (read_loop t (l + int (length c)) cs @ rest))"
      using l' by (rule Cons.IH)
    then show ?thesis
      using True here by (simp add: is_suspension_def apply_setter_def)
  next
    case False
    have "list_all phase_fits (held_from (Downloading, p) (read_loop t (l + int (length c)) cs @ rest))"
      using Cons.prems(1) l' by (rule Cons.IH)
    then show ?thesis
      using False here by (simp add: is_suspension_def)
  qed
qed

lemma held_streaming:
  assumes "in_band p"
    and cont: "\<And>q. in_band q \<Longrightarrow> list_all phase_fits (held_from (Downloading, q) rest)"
  shows "list_all phase_fits (held_from (Downloading, p) (streaming resp @ rest))"
proof (cases "body_chunks resp")
  case None
  then show ?thesis using cont [OF assms(1)] by (simp add: streaming_def)
next
  case (Some chunks)
  have "list_all phase_fits
      (held_from (Downloading, p) (read_loop (total_of (content_length resp)) 0 chunks @ rest))"
    using assms(1) by (rule held_read_loop) (simp_all add: cont)
  then show ?thesis using Some by (simp add: streaming_def)
qed

lemma held_before_fetch:
  "held_from (Initializing, 0) (before_fetch e @ rest) =
     (Initializing, 0) # (Downloading, 30) # held_from (Downloading, 30) rest"
  by (simp add: before_fetch_def is_suspension_def apply_setter_def)

lemma run_after_streaming:
  assumes "cache_entry e = None" and "fetched e = Some resp"
  shows "\<exists>rest. snd (initializeWasmer e) = before_fetch e @ streaming resp @ rest \<and>
           (\<forall>q. in_band q \<longrightarrow> list_all phase_fits (held_from (Downloading, q) rest))"
  using assms
  by (auto simp: initializeWasmer_def Let_def phase_fits_def in_band_def is_suspension_def
        apply_setter_def)

lemma held_run: "list_all phase_fits (held_states (snd (initializeWasmer e)))"
proof (cases "cache_entry e")
  case (Some b)
  then show ?thesis
    by (simp add: initializeWasmer_def held_states_def is_suspension_def apply_setter_def
          phase_fits_def)
next
  case None
  show ?thesis
  proof (cases "fetched e")
    case fnone: None
    with None show ?thesis
      by (simp add: initializeWasmer_def held_states_def held_before_fetch is_suspension_def
            apply_setter_def phase_fits_def in_band_def)
  next
    case (Some resp)
    obtain rest where tr: "snd (initializeWasmer e) = before_fetch e @ streaming resp @ rest"
      and cont: "\<And>q. in_band q \<Longrightarrow> list_all phase_fits (held_from (Downloading, q) rest)"
      using run_after_streaming [OF None Some] by blast
    have b: "in_band 30" by (simp add: in_band_def)
    have "list_all phase_fits (held_from (Downloading, 30) (streaming resp @ rest))"
      using b cont by (rule held_streaming)
    then show ?thesis
      by (simp add: tr held_states_def held_before_fetch phase_fits_def in_band_def)
  qed
qed

lemma held_after_completion: "last (held_from st (pre @ completion)) = (Complete, 100)"
  by (induction pre arbitrary: st)
     (simp_all add: completion_def is_suspension_def apply_setter_def held_from_nonempty)

text \<open>
  Claim C4. In every run the progress values are reported in non-decreasing order,
  and the values of the streaming loop lie in the band from 30 to 80. Of the pairs of
  phase and progress held at the suspension points and at the end of the run, those
  in phase \<open>downloading\<close> have their progress in the band, and the progress is 100
  only in phase \<open>complete\<close>, never in \<open>initializing\<close>, \<open>downloading\<close> or
  \<open>processing\<close>. A run that reports 100 returns, 100 is its last progress value, and
  it ends with phase \<open>complete\<close> and progress 100.
\<close>

theorem progress_sorted_banded_and_100_only_complete:
  "\<forall>e. sorted (progress_values (snd (initializeWasmer e))) \<and>
       (case fetched e of None \<Rightarrow> True
        | Some resp \<Rightarrow> list_all in_band (progress_values (streaming resp))) \<and>
       list_all (\<lambda>st. fst st = Downloading \<longrightarrow> in_band (snd st))
         (held_states (snd (initializeWasmer e))) \<and>
       list_all (\<lambda>st. snd st = 100 \<longrightarrow> fst st = Complete)
         (held_states (snd (initializeWasmer e))) \<and>
       (100 \<in> set (progress_values (snd (initializeWasmer e))) \<longrightarrow>
          fst (initializeWasmer e) = Returned \<and>
          (\<exists>pre. snd (initializeWasmer e) = pre @ completion \<and>
                 100 \<notin> set (progress_values pre)) \<and>
          last (held_states (snd (initializeWasmer e))) = (Complete, 100))"
proof (intro allI conjI impI)
  fix e :: loader_env
  show "sorted (progress_values (snd (initializeWasmer e)))" by (rule run_sorted)
  show "case fetched e of None \<Rightarrow> True
        | Some resp \<Rightarrow> list_all in_band (progress_values (streaming resp))"
    by (simp add: streaming_band split: option.splits)
  show "list_all (\<lambda>st. fst st = Downloading \<longrightarrow> in_band (snd st))
         (held_states (snd (initializeWasmer e)))"
    using held_run [of e] by (simp add: list_all_iff phase_fits_def)
  show "list_all (\<lambda>st. snd st = 100 \<longrightarrow> fst st = Complete)
         (held_states (snd (initializeWasmer e)))"
    using held_run [of e] by (simp add: list_all_iff phase_fits_def)
next
  fix e :: loader_env
  assume h: "100 \<in> set (progress_values (snd (initializeWasmer e)))"
  then show "fst (initializeWasmer e) = Returned" by (simp add: hundred_ends_run)
  from h show ex: "\<exists>pre. snd (initializeWasmer e) = pre @ completion \<and>
                 100 \<notin> set (progress_values pre)"
    by (simp add: hundred_ends_run)
  then show "last (held_states (snd (initializeWasmer e))) = (Complete, 100)"
    by (auto simp: held_states_def held_after_completion)
qed

lemma miss_env_run:
  "initializeWasmer miss_env =
     (Returned,
      [CacheMatch ''6.0.4'', SetDownloadPhase Initializing, SetIsDownloading True,
       SetDownloadProgress 10, SetDownloadPhase Downloading, SetDownloadProgress 30,
       FetchUrl ''/wasm/6.0.4'', ReaderRead, SetDownloadProgress 45, ReaderRead,
       SetDownloadProgress 65, ReaderRead, SetDownloadProgress 80, ReaderRead,
       SetDownloadPhase Processing, SetDownloadProgress 85, SetDownloadProgress 90,
       SetPkg (Wasmer [0, 97, 115, 109, 1, 0, 0, 0, 1, 2]), SetDownloadProgress 95,
       CachePut ''6.0.4'' [0, 97, 115, 109, 1, 0, 0, 0, 1, 2],
       SetDownloadProgress 100, SetDownloadPhase Complete, LaterSetIsDownloading False])"
  by (simp add: initializeWasmer_def miss_env_def Let_def before_fetch_def streaming_def
        wasmUrl_def total_of_def positive_def stream_progress_def)
     code_simp

lemma miss_env_values:
  "progress_values (snd (initializeWasmer miss_env)) = [10, 30, 45, 65, 80, 85, 90, 95, 100]"
  by (simp add: miss_env_run)

lemma miss_env_held:
  "held_states (snd (initializeWasmer miss_env)) =
     [(Initializing, 0), (Downloading, 30), (Downloading, 30), (Downloading, 45),
      (Downloading, 65), (Downloading, 80), (Processing, 95), (Complete, 100)]"
  by (simp add: miss_env_run held_states_def is_suspension_def apply_setter_def)

text \<open>
  A run that misses the cache, streams three chunks of a body of advertised length 10
  and stores the result: the values are 10, 30, 45, 65, 80, 85, 90, 95, 100, and the
  pairs held end with \<open>processing\<close> and 95 at the cache store and \<open>complete\<close> and 100
  at the end.
\<close>

theorem progress_run_witness:
  "progress_values (snd (initializeWasmer miss_env)) = [10, 30, 45, 65, 80, 85, 90, 95, 100] \<and>
   sorted [10, 30, 45, 65, 80, 85, 90, 95, 100 :: rat] \<and>
   held_states (snd (initializeWasmer miss_env)) =
     [(Initializing, 0), (Downloading, 30), (Downloading, 30), (Downloading, 45),
      (Downloading, 65), (Downloading, 80), (Processing, 95), (Complete, 100)] \<and>
   100 \<in> set (progress_values (snd (initializeWasmer miss_env))) \<and>
   fst (initializeWasmer miss_env) = Returned \<and>
   (\<exists>pre. snd (initializeWasmer miss_env) = pre @ completion \<and> 100 \<notin> set (progress_values pre)) \<and>
   last (held_states (snd (initializeWasmer miss_env))) = (Complete, 100)"
proof -
  note th = progress_sorted_banded_and_100_only_complete [rule_format, of miss_env]
  have s: "sorted (progress_values (snd (initializeWasmer miss_env)))"
    by (rule th [THEN conjunct1])
  have m: "100 \<in> set (progress_values (snd (initializeWasmer miss_env)))"
    by (simp add: miss_env_values)
  note e = th [THEN conjunct2, THEN conjunct2, THEN conjunct2, THEN conjunct2, rule_format, OF m]
  have s': "sorted [10, 30, 45, 65, 80, 85, 90, 95, 100 :: rat]"
    using s by (simp only: miss_env_values)
  show ?thesis
    by (intro conjI miss_env_values s' miss_env_held m e [THEN conjunct1]
          e [THEN conjunct2, THEN conjunct1] e [THEN conjunct2, THEN conjunct2])
qed

text \<open>
  Claim C5. When the cache holds an entry for the version, the run makes no fetch and
  no call of a progress, phase or downloading setter; when \<open>Wasmer.fromWasm\<close> accepts
  the cached bytes the run returns after the cache lookup and the one call that stores
  the package decoded from those bytes.
\<close>

theorem cache_hit_decodes_without_fetch:
  "\<forall>e b. cache_entry e = Some b \<longrightarrow>
     filter is_fetch (snd (initializeWasmer e)) = [] \<and>
     filter is_progress_report (snd (initializeWasmer e)) = [] \<and>
     (fromWasm_ok e \<longrightarrow>
        initializeWasmer e = (Returned, [CacheMatch (version e), SetPkg (Wasmer b)]))"
  by (simp add: initializeWasmer_def is_fetch_def is_progress_report_def)

text \<open>
  The run of \<open>hit_env\<close>; with the same parameters and no cache entry (\<open>miss_env\<close>) the
  run does fetch.
\<close>

theorem cache_hit_witness:
  "cache_entry hit_env = Some [0, 97, 115, 109] \<and> fromWasm_ok hit_env \<and>
   initializeWasmer hit_env = (Returned, [CacheMatch ''6.0.4'', SetPkg (Wasmer [0, 97, 115, 109])]) \<and>
   filter is_fetch (snd (initializeWasmer hit_env)) = [] \<and>
   filter is_progress_report (snd (initializeWasmer hit_env)) = [] \<and>
   filter is_fetch (snd (initializeWasmer miss_env)) = [FetchUrl ''/wasm/6.0.4'']"
proof -
  have c: "cache_entry hit_env = Some [0, 97, 115, 109]" and f: "fromWasm_ok hit_env"
    and v: "version hit_env = ''6.0.4''"
    by (simp_all add: hit_env_def miss_env_def)
  note th = cache_hit_decodes_without_fetch [rule_format, OF c]
  have r: "initializeWasmer hit_env = (Returned, [CacheMatch ''6.0.4'', SetPkg (Wasmer [0, 97, 115, 109])])"
    using th [THEN conjunct2, THEN conjunct2, rule_format, OF f] by (simp only: v)
  have m: "filter is_fetch (snd (initializeWasmer miss_env)) = [FetchUrl ''/wasm/6.0.4'']"
    by (simp add: miss_env_run is_fetch_def)
  show ?thesis
    by (intro conjI c f r th [THEN conjunct1] th [THEN conjunct2, THEN conjunct1] m)
qed

section \<open>The proxy endpoint: properties\<close>

text \<open>
  The parts of claim C9 that the handler keeps: a failed fetch is answered with status
  500 and the body \<open>Error fetching ZIP file\<close> (a plain string, sent by \<open>res.send\<close>
  with the content type \<open>text/html\<close>); once the headers are sent no error changes the
  status; an \<open>error\<close> of the response stream itself before any byte is answered with
  500 and \<open>Error extracting WASM file\<close>.
\<close>

lemma fetch_failure_answer:
  "res (handle_request False) =
     \<lparr>status = 500, headers = [(''Content-Type'', ''text/html; charset=utf-8'')],
      headersSent = True, sent_body = ''Error fetching ZIP file'', finished = True\<rparr>"
  by (simp add: handle_request_def send_500_def send_content_type_def fresh_response_def)

lemma send_500_after_headers: "headersSent r \<Longrightarrow> send_500 msg r = r"
  by (simp add: send_500_def)

lemma headers_sent_once:
  "headersSent (res st) \<Longrightarrow> res (on_stream_event (ErrorOn em) st) = res st"
  by (simp add: on_stream_event_def send_500_after_headers)

lemma listener_on_response: "error_listener (handle_request True) = Some Res"
  by (simp add: handle_request_def pipe_def)

lemma response_error_answer:
  "res (on_stream_events [ErrorOn Res] (handle_request True)) =
     \<lparr>status = 500,
      headers = [(''Content-Type'', ''application/wasm; charset=utf-8''),
                 (''Access-Control-Allow-Origin'', ''*''),
                 (''Access-Control-Allow-Methods'', ''GET, OPTIONS''),
                 (''Access-Control-Allow-Headers'', ''*'')],
      headersSent = True, sent_body = ''Error extracting WASM file'', finished = True\<rparr>"
  by (simp add: handle_request_def pipe_def on_stream_event_def send_500_def
        send_content_type_def wasm_headers_def fresh_response_def)

text \<open>
  Claim C9, the extraction failure. The listener that sends
  \<open>Error extracting WASM file\<close> is registered on what \<open>.pipe(res)\<close> returns, which is
  the response. When the fetch succeeded and the extractor emits \<open>error\<close> before any
  byte was written, no listener receives it: the response keeps status 200 with its
  headers unsent and an empty body, and the event is unhandled.
\<close>

theorem extraction_error_reaches_no_listener:
  "error_listener (handle_request True) = Some Res \<and>
   on_stream_events [ErrorOn Extractor] (handle_request True) =
     \<lparr>res = \<lparr>status = 200, headers = wasm_headers, headersSent = False, sent_body = [],
             finished = False\<rparr>,
      error_listener = Some Res, unhandled_error = True\<rparr> \<and>
   status (res (on_stream_events [ErrorOn Extractor] (handle_request True))) \<noteq> 500 \<and>
   sent_body (res (on_stream_events [ErrorOn Extractor] (handle_request True))) \<noteq>
     ''Error extracting WASM file''"
  by (simp add: handle_request_def pipe_def on_stream_event_def fresh_response_def)

end
